theory Spec2Isabelle
  imports Main "HOL-Library.Word"
begin

unbundle bit_operations_syntax

section \<open>The debugger's value-inspection protocol\<close>

text \<open>
  The providers in \<^verbatim>\<open>src/lldb\<close> are written against LLDB's Python API
  (\<^verbatim>\<open>SBValue\<close>, \<^verbatim>\<open>SBType\<close>). That API is not part of the repository; it is
  modelled here by what its calls answer:
  \<^item> a value the debugger presents is a tree (\<open>sbnode\<close>): name, type, the reading
    \<^verbatim>\<open>GetValueAsUnsigned\<close> gives (a 64-bit unsigned number, 0 for an aggregate),
    its raw bytes and its children;
  \<^item> an absent value is the invalid value: \<^verbatim>\<open>GetChildMemberWithName\<close> of a name
    the type does not have answers an invalid \<^verbatim>\<open>SBValue\<close> (the source relies on this
    in \<^verbatim>\<open>hashmap.py\<close> line 52, where it asks for \<^verbatim>\<open>data\<close> and tests
    \<^verbatim>\<open>IsValid()\<close>), and \<^verbatim>\<open>GetValueAsUnsigned()\<close> of an invalid value is its
    default \<^verbatim>\<open>fail_value\<close>, 0;
  \<^item> what lies in the debuggee's memory is a parameter, the \<open>host\<close>: it answers which
    value is found at an address under a type.
  Python integers are \<open>int\<close>. The addresses the providers compute are Python
  integers; \<^verbatim>\<open>CreateValueFromAddress\<close> takes its address as an unsigned 64-bit
  number (\<^verbatim>\<open>lldb::addr_t\<close>), and the call raises \<^verbatim>\<open>OverflowError\<close> for an
  integer below 0 or from \<open>2^64\<close> on.
\<close>

datatype py_error = IndexError | TypeError | ValueError | OverflowError

datatype sbtype =
    InvalidType
  | BasicType string nat
  | PointerType sbtype
  | TypedefType string sbtype
  | StructType string nat "sbtype list"

datatype sbnode =
    InvalidNode
  | Node (node_name: string) (node_type: sbtype) (node_unsigned: "64 word")
         (node_data: "8 word list") (node_children: "sbnode list")

text \<open>
  An \<^verbatim>\<open>SBValue\<close> is either a value the host presented, or the record of one of the
  calls that make a new value: \<^verbatim>\<open>recv.CreateValueFromAddress(name, address, type)\<close>,
  \<^verbatim>\<open>recv.CreateValueFromData(name, data, type)\<close>, \<^verbatim>\<open>recv.Cast(type)\<close>.
  LLDB reads the memory of such a value only when the value is inspected.
  \<open>ValueFromAddress\<close> is the value the first call makes when it accepts the address.
\<close>

datatype sbvalue =
    HostValue sbnode
  | ValueFromAddress sbvalue string int sbtype
  | CreateValueFromData sbvalue string "8 word list" sbtype
  | Cast sbvalue sbtype

record host =
  value_at :: "int \<Rightarrow> sbtype \<Rightarrow> sbnode"
  value_of_data :: "8 word list \<Rightarrow> sbtype \<Rightarrow> sbnode"

subsection \<open>SBType\<close>

definition addr_byte_size :: nat where
  "addr_byte_size = 8"

fun GetByteSize :: "sbtype \<Rightarrow> int" where
  "GetByteSize InvalidType = 0"
| "GetByteSize (BasicType n sz) = int sz"
| "GetByteSize (PointerType t) = int addr_byte_size"
| "GetByteSize (TypedefType n t) = GetByteSize t"
| "GetByteSize (StructType n sz targs) = int sz"

fun IsPointerType :: "sbtype \<Rightarrow> bool" where
  "IsPointerType (PointerType t) = True"
| "IsPointerType (TypedefType n t) = IsPointerType t"
| "IsPointerType t = False"

fun IsTypedefType :: "sbtype \<Rightarrow> bool" where
  "IsTypedefType (TypedefType n t) = True"
| "IsTypedefType t = False"

fun GetTypedefedType :: "sbtype \<Rightarrow> sbtype" where
  "GetTypedefedType (TypedefType n t) = t"
| "GetTypedefedType t = InvalidType"

fun GetPointerType :: "sbtype \<Rightarrow> sbtype" where
  "GetPointerType InvalidType = InvalidType"
| "GetPointerType t = PointerType t"

fun GetPointeeType :: "sbtype \<Rightarrow> sbtype" where
  "GetPointeeType (PointerType t) = t"
| "GetPointeeType (TypedefType n t) = GetPointeeType t"
| "GetPointeeType t = InvalidType"

fun template_arg_list :: "sbtype \<Rightarrow> sbtype list" where
  "template_arg_list (StructType n sz targs) = targs"
| "template_arg_list (TypedefType n t) = template_arg_list t"
| "template_arg_list t = []"

text \<open>
  \<^verbatim>\<open>SBType.GetTemplateArgumentType(i)\<close> answers an invalid type when there is no
  such argument. The Python property \<^verbatim>\<open>SBType.template_args\<close> is the list of all
  template arguments, and \<^verbatim>\<open>None\<close> when there are none.
\<close>

definition GetTemplateArgumentType :: "sbtype \<Rightarrow> nat \<Rightarrow> sbtype" where
  "GetTemplateArgumentType t i =
     (if i < length (template_arg_list t) then template_arg_list t ! i else InvalidType)"

definition template_args :: "sbtype \<Rightarrow> sbtype list option" where
  "template_args t = (if template_arg_list t = [] then None else Some (template_arg_list t))"

subsection \<open>SBValue\<close>

fun IsValid :: "sbvalue \<Rightarrow> bool" where
  "IsValid (HostValue n) = (n \<noteq> InvalidNode)"
| "IsValid (ValueFromAddress recv name a t) = (IsValid recv \<and> t \<noteq> InvalidType)"
| "IsValid (CreateValueFromData recv name d t) = (IsValid recv \<and> t \<noteq> InvalidType)"
| "IsValid (Cast v t) = (IsValid v \<and> t \<noteq> InvalidType)"

fun GetType :: "sbvalue \<Rightarrow> sbtype" where
  "GetType (HostValue InvalidNode) = InvalidType"
| "GetType (HostValue (Node n t u d cs)) = t"
| "GetType (ValueFromAddress recv name a t) = (if IsValid recv then t else InvalidType)"
| "GetType (CreateValueFromData recv name d t) = (if IsValid recv then t else InvalidType)"
| "GetType (Cast v t) = (if IsValid v then t else InvalidType)"

definition TypeIsPointerType :: "sbvalue \<Rightarrow> bool" where
  "TypeIsPointerType v = IsPointerType (GetType v)"

text \<open>What the host shows when a value is inspected.\<close>

fun view :: "host \<Rightarrow> sbvalue \<Rightarrow> sbnode" where
  "view h (HostValue n) = n"
| "view h (ValueFromAddress recv name a t) =
     (if IsValid recv \<and> t \<noteq> InvalidType then value_at h a t else InvalidNode)"
| "view h (CreateValueFromData recv name d t) =
     (if IsValid recv \<and> t \<noteq> InvalidType then value_of_data h d t else InvalidNode)"
| "view h (Cast v t) =
     (if t = InvalidType then InvalidNode
      else case view h v of
             InvalidNode \<Rightarrow> InvalidNode
           | Node n ty u d cs \<Rightarrow> Node n t u d cs)"

definition GetValueAsUnsigned :: "host \<Rightarrow> sbvalue \<Rightarrow> int" where
  "GetValueAsUnsigned h v =
     (case view h v of InvalidNode \<Rightarrow> 0 | Node n t u d cs \<Rightarrow> uint u)"

definition GetData :: "host \<Rightarrow> sbvalue \<Rightarrow> 8 word list" where
  "GetData h v = (case view h v of InvalidNode \<Rightarrow> [] | Node n t u d cs \<Rightarrow> d)"

definition children :: "host \<Rightarrow> sbvalue \<Rightarrow> sbnode list" where
  "children h v = (case view h v of InvalidNode \<Rightarrow> [] | Node n t u d cs \<Rightarrow> cs)"

definition GetChildAtIndex :: "host \<Rightarrow> sbvalue \<Rightarrow> nat \<Rightarrow> sbvalue" where
  "GetChildAtIndex h v i =
     HostValue (if i < length (children h v) then children h v ! i else InvalidNode)"

fun member_named :: "string \<Rightarrow> sbnode list \<Rightarrow> sbnode" where
  "member_named name [] = InvalidNode"
| "member_named name (InvalidNode # cs) = member_named name cs"
| "member_named name (Node n t u d ks # cs) =
     (if n = name then Node n t u d ks else member_named name cs)"

definition GetChildMemberWithName :: "host \<Rightarrow> sbvalue \<Rightarrow> string \<Rightarrow> sbvalue" where
  "GetChildMemberWithName h v name = HostValue (member_named name (children h v))"

text \<open>
  \<^verbatim>\<open>valobj.GetTarget().GetBasicType(eBasicTypeUnsignedChar)\<close>: the target of a valid
  value knows the one-byte type \<^verbatim>\<open>unsigned char\<close>; an invalid value has no target and
  the answer is the invalid type.
\<close>

datatype sbtarget = InvalidTarget | Target

datatype basic_type = eBasicTypeUnsignedChar

definition GetTarget :: "sbvalue \<Rightarrow> sbtarget" where
  "GetTarget v = (if IsValid v then Target else InvalidTarget)"

fun GetBasicType :: "sbtarget \<Rightarrow> basic_type \<Rightarrow> sbtype" where
  "GetBasicType InvalidTarget k = InvalidType"
| "GetBasicType Target eBasicTypeUnsignedChar = BasicType ''unsigned char'' 1"

text \<open>
  The call \<^verbatim>\<open>recv.CreateValueFromAddress(name, address, type)\<close> as Python sees it:
  the address must fit \<^verbatim>\<open>lldb::addr_t\<close>.
\<close>

definition fits_addr_t :: "int \<Rightarrow> bool" where
  "fits_addr_t address = (0 \<le> address \<and> address < 2 ^ 64)"

definition CreateValueFromAddress ::
  "sbvalue \<Rightarrow> string \<Rightarrow> int \<Rightarrow> sbtype \<Rightarrow> py_error + sbvalue" where
  "CreateValueFromAddress recv name address t =
     (if fits_addr_t address then Inr (ValueFromAddress recv name address t)
      else Inl OverflowError)"

section \<open>Python built-ins used by the providers\<close>

text \<open>
  A character of a \<open>string\<close> stands for a code point below 256.
  \<^verbatim>\<open>str.isdigit()\<close> holds of a non-empty string of digit characters; below 256 these
  are \<^verbatim>\<open>0\<close> to \<^verbatim>\<open>9\<close> and the superscripts U+00B2, U+00B3, U+00B9, which
  \<^verbatim>\<open>int()\<close> does not accept (it raises \<^verbatim>\<open>ValueError\<close>).
  \<^verbatim>\<open>int()\<close> and \<^verbatim>\<open>str()\<close> are the conversions between an integer and its
  decimal digits; the bound CPython can be configured to put on the number of digits is
  left out.
\<close>

definition is_decimal :: "char \<Rightarrow> bool" where
  "is_decimal c = (48 \<le> (of_char c :: nat) \<and> (of_char c :: nat) \<le> 57)"

definition is_digit :: "char \<Rightarrow> bool" where
  "is_digit c = (is_decimal c \<or> (of_char c :: nat) = 178 \<or> (of_char c :: nat) = 179
                 \<or> (of_char c :: nat) = 185)"

definition isdigit :: "string \<Rightarrow> bool" where
  "isdigit s = (s \<noteq> [] \<and> list_all is_digit s)"

definition lstrip :: "char \<Rightarrow> string \<Rightarrow> string" where
  "lstrip c s = dropWhile (\<lambda>x. x = c) s"

definition rstrip :: "char \<Rightarrow> string \<Rightarrow> string" where
  "rstrip c s = rev (dropWhile (\<lambda>x. x = c) (rev s))"

definition digit_value :: "char \<Rightarrow> int" where
  "digit_value c = int (of_char c) - 48"

definition py_int :: "string \<Rightarrow> py_error + int" where
  "py_int s =
     (if s \<noteq> [] \<and> list_all is_decimal s
      then Inr (foldl (\<lambda>acc c. 10 * acc + digit_value c) 0 s)
      else Inl ValueError)"

fun digits_of :: "nat \<Rightarrow> string" where
  "digits_of n =
     (if n < 10 then [char_of (48 + n)]
      else digits_of (n div 10) @ [char_of (48 + n mod 10)])"

declare digits_of.simps [simp del]

definition py_str :: "int \<Rightarrow> string" where
  "py_str i = (if i < 0 then CHR ''-'' # digits_of (nat (- i)) else digits_of (nat i))"

text \<open>\<^verbatim>\<open>"[%s]" % index\<close> and \<^verbatim>\<open>"ctrl[%s]" % idx\<close>.\<close>

definition child_name :: "int \<Rightarrow> string" where
  "child_name index = ''['' @ py_str index @ '']''"

definition ctrl_name :: "int \<Rightarrow> string" where
  "ctrl_name idx = ''ctrl['' @ py_str idx @ '']''"

text \<open>\<^verbatim>\<open>range(n)\<close>: the integers from 0 up to \<open>n - 1\<close>, none when \<open>n \<le> 0\<close>.\<close>

definition py_range :: "int \<Rightarrow> int list" where
  "py_range n = map int [0 ..< nat n]"

text \<open>
  \<^verbatim>\<open>xs[i]\<close> on a list: a negative index counts from the end, and an index beyond either
  end raises \<^verbatim>\<open>IndexError\<close>.
\<close>

definition py_getitem :: "'a list \<Rightarrow> int \<Rightarrow> py_error + 'a" where
  "py_getitem xs i =
     (if 0 \<le> i \<and> i < int (length xs) then Inr (xs ! nat i)
      else if i < 0 \<and> - int (length xs) \<le> i then Inr (xs ! nat (int (length xs) + i))
      else Inl IndexError)"

section \<open>\<^verbatim>\<open>slice.py\<close>: StdSliceSyntheticProvider\<close>

record slice_provider =
  slice_valobj :: sbvalue
  slice_length :: int
  slice_data_ptr :: sbvalue
  slice_element_type :: sbtype
  slice_element_type_size :: int

definition slice_update :: "host \<Rightarrow> sbvalue \<Rightarrow> slice_provider" where
  "slice_update h valobj =
     (let length = GetValueAsUnsigned h (GetChildMemberWithName h valobj ''length'');
          data_ptr = GetChildMemberWithName h valobj ''data_ptr'';
          element_type = GetPointeeType (GetType data_ptr);
          element_type_size = GetByteSize element_type
      in \<lparr> slice_valobj = valobj, slice_length = length, slice_data_ptr = data_ptr,
           slice_element_type = element_type,
           slice_element_type_size = element_type_size \<rparr>)"

definition slice_num_children :: "slice_provider \<Rightarrow> int" where
  "slice_num_children self = slice_length self"

definition slice_get_child_index :: "string \<Rightarrow> py_error + int" where
  "slice_get_child_index name =
     (let index = rstrip CHR '']'' (lstrip CHR ''['' name)
      in if isdigit index then py_int index else Inr (- 1))"

definition slice_get_child_at_index ::
  "host \<Rightarrow> slice_provider \<Rightarrow> int \<Rightarrow> py_error + sbvalue" where
  "slice_get_child_at_index h self index =
     (let start = GetValueAsUnsigned h (slice_data_ptr self);
          address = start + index * slice_element_type_size self
      in case CreateValueFromAddress (slice_data_ptr self) (child_name index) address
                (slice_element_type self) of
           Inl e \<Rightarrow> Inl e
         | Inr element \<Rightarrow> Inr element)"

section \<open>\<^verbatim>\<open>vec.py\<close>: StdVecSyntheticProvider\<close>

definition unwrap_unique_or_non_null :: "host \<Rightarrow> sbvalue \<Rightarrow> sbvalue" where
  "unwrap_unique_or_non_null h unique_or_nonnull =
     (let ptr = GetChildMemberWithName h unique_or_nonnull ''pointer''
      in if TypeIsPointerType ptr then ptr else GetChildAtIndex h ptr 0)"

record vec_provider =
  vec_valobj :: sbvalue
  vec_length :: int
  vec_buf :: sbvalue
  vec_data_ptr :: sbvalue
  vec_element_type :: sbtype
  vec_element_type_size :: int

definition vec_update :: "host \<Rightarrow> sbvalue \<Rightarrow> vec_provider" where
  "vec_update h valobj =
     (let length = GetValueAsUnsigned h (GetChildMemberWithName h valobj ''len'');
          buf = GetChildMemberWithName h (GetChildMemberWithName h valobj ''buf'') ''inner'';
          data_ptr = unwrap_unique_or_non_null h (GetChildMemberWithName h buf ''ptr'');
          element_type = GetTemplateArgumentType (GetType valobj) 0;
          element_type_size = GetByteSize element_type
      in \<lparr> vec_valobj = valobj, vec_length = length, vec_buf = buf, vec_data_ptr = data_ptr,
           vec_element_type = element_type, vec_element_type_size = element_type_size \<rparr>)"

definition vec_num_children :: "vec_provider \<Rightarrow> int" where
  "vec_num_children self = vec_length self"

definition vec_get_child_index :: "string \<Rightarrow> py_error + int" where
  "vec_get_child_index name =
     (let index = rstrip CHR '']'' (lstrip CHR ''['' name)
      in if isdigit index then py_int index else Inr (- 1))"

definition vec_get_child_at_index ::
  "host \<Rightarrow> vec_provider \<Rightarrow> int \<Rightarrow> py_error + sbvalue" where
  "vec_get_child_at_index h self index =
     (let start = GetValueAsUnsigned h (vec_data_ptr self);
          address = start + index * vec_element_type_size self
      in case CreateValueFromAddress (vec_data_ptr self) (child_name index) address
                (vec_element_type self) of
           Inl e \<Rightarrow> Inl e
         | Inr element \<Rightarrow> Inr element)"

section \<open>\<^verbatim>\<open>hashmap.py\<close>: StdHashMapSyntheticProvider and StdHashSetSyntheticProvider\<close>

text \<open>
  The set provider is a subclass of the map provider: it overrides \<^verbatim>\<open>table()\<close> and
  constructs itself with \<^verbatim>\<open>show_values=False\<close>. The class of an instance is the
  field \<open>hm_class\<close>.
\<close>

datatype provider_class = StdHashMapSyntheticProvider | StdHashSetSyntheticProvider

record hashmap_provider =
  hm_class :: provider_class
  hm_valobj :: sbvalue
  hm_show_values :: bool
  hm_size :: int
  hm_pair_type :: sbtype
  hm_pair_type_size :: int
  hm_new_layout :: bool
  hm_data_ptr :: sbvalue
  hm_valid_indices :: "int list"

fun table :: "host \<Rightarrow> provider_class \<Rightarrow> sbvalue \<Rightarrow> sbvalue" where
  "table h StdHashMapSyntheticProvider valobj =
     (let hashbrown_hashmap = GetChildMemberWithName h valobj ''base''
      in GetChildMemberWithName h hashbrown_hashmap ''table'')"
| "table h StdHashSetSyntheticProvider valobj =
     (let hashbrown_hashset = GetChildMemberWithName h valobj ''base'';
          hashbrown_hashmap = GetChildMemberWithName h hashbrown_hashset ''map''
      in GetChildMemberWithName h hashbrown_hashmap ''table'')"

text \<open>
  The body of the loop of \<^verbatim>\<open>update\<close> (lines 63 to 68), for one \<open>idx\<close>, and the
  loop over the indices that remain: an exception in the body ends the loop and the call.
\<close>

definition scan_slot ::
  "host \<Rightarrow> sbvalue \<Rightarrow> sbtype \<Rightarrow> int \<Rightarrow> int list \<Rightarrow> int \<Rightarrow> py_error + int list" where
  "scan_slot h ctrl u8_type u8_type_size valid_indices idx =
     (let address = GetValueAsUnsigned h ctrl + idx * u8_type_size
      in case CreateValueFromAddress ctrl (ctrl_name idx) address u8_type of
           Inl e \<Rightarrow> Inl e
         | Inr byte \<Rightarrow>
            (let value = GetValueAsUnsigned h byte;
                 is_present = (value AND 128 = 0)
             in Inr (if is_present then valid_indices @ [idx] else valid_indices)))"

fun scan_slots ::
  "host \<Rightarrow> sbvalue \<Rightarrow> sbtype \<Rightarrow> int \<Rightarrow> int list \<Rightarrow> int list \<Rightarrow> py_error + int list" where
  "scan_slots h ctrl u8_type u8_type_size valid_indices [] = Inr valid_indices"
| "scan_slots h ctrl u8_type u8_type_size valid_indices (idx # rest) =
     (case scan_slot h ctrl u8_type u8_type_size valid_indices idx of
        Inl e \<Rightarrow> Inl e
      | Inr valid_indices' \<Rightarrow> scan_slots h ctrl u8_type u8_type_size valid_indices' rest)"

text \<open>
  \<^verbatim>\<open>update\<close> reads \<^verbatim>\<open>self.valobj\<close> and \<^verbatim>\<open>self.show_values\<close> and assigns every
  other attribute. It fails at \<^verbatim>\<open>table.type.template_args[0]\<close> when the property is
  \<^verbatim>\<open>None\<close> (line 47, \<^verbatim>\<open>TypeError\<close>), and in the loop when an address does not
  fit (line 64, \<^verbatim>\<open>OverflowError\<close>); the exception leaves the call.
\<close>

definition hashmap_update ::
  "host \<Rightarrow> provider_class \<Rightarrow> sbvalue \<Rightarrow> bool \<Rightarrow> py_error + hashmap_provider" where
  "hashmap_update h cls valobj show_values =
     (let table = table h cls valobj;
          inner_table = GetChildMemberWithName h table ''table'';
          capacity = GetValueAsUnsigned h (GetChildMemberWithName h inner_table ''bucket_mask'') + 1;
          ctrl = GetChildAtIndex h (GetChildMemberWithName h inner_table ''ctrl'') 0;
          size = GetValueAsUnsigned h (GetChildMemberWithName h inner_table ''items'')
      in case template_args (GetType table) of
           None \<Rightarrow> Inl TypeError
         | Some targs \<Rightarrow>
            (let pair_type0 = targs ! 0;
                 pair_type = (if IsTypedefType pair_type0 then GetTypedefedType pair_type0
                              else pair_type0);
                 pair_type_size = GetByteSize pair_type;
                 new_layout = (\<not> IsValid (GetChildMemberWithName h inner_table ''data''));
                 data_ptr = (if new_layout then Cast ctrl (GetPointerType pair_type)
                             else GetChildAtIndex h
                                    (GetChildMemberWithName h inner_table ''data'') 0);
                 u8_type = GetBasicType (GetTarget valobj) eBasicTypeUnsignedChar;
                 u8_type_size = GetByteSize
                                  (GetBasicType (GetTarget valobj) eBasicTypeUnsignedChar)
             in case scan_slots h ctrl u8_type u8_type_size [] (py_range capacity) of
                  Inl e \<Rightarrow> Inl e
                | Inr valid_indices \<Rightarrow>
                    Inr \<lparr> hm_class = cls, hm_valobj = valobj, hm_show_values = show_values,
                          hm_size = size, hm_pair_type = pair_type,
                          hm_pair_type_size = pair_type_size, hm_new_layout = new_layout,
                          hm_data_ptr = data_ptr, hm_valid_indices = valid_indices \<rparr>))"

text \<open>The constructors: \<^verbatim>\<open>__init__\<close> stores its arguments and calls \<^verbatim>\<open>update\<close>.\<close>

definition StdHashMapSyntheticProvider_init ::
  "host \<Rightarrow> sbvalue \<Rightarrow> bool \<Rightarrow> py_error + hashmap_provider" where
  "StdHashMapSyntheticProvider_init h valobj show_values =
     hashmap_update h StdHashMapSyntheticProvider valobj show_values"

definition StdHashSetSyntheticProvider_init :: "host \<Rightarrow> sbvalue \<Rightarrow> py_error + hashmap_provider" where
  "StdHashSetSyntheticProvider_init h valobj =
     hashmap_update h StdHashSetSyntheticProvider valobj False"

definition hashmap_num_children :: "hashmap_provider \<Rightarrow> int" where
  "hashmap_num_children self = hm_size self"

definition hashmap_get_child_index :: "string \<Rightarrow> py_error + int" where
  "hashmap_get_child_index name =
     (let index = rstrip CHR '']'' (lstrip CHR ''['' name)
      in if isdigit index then py_int index else Inr (- 1))"

text \<open>Lines 26 to 30 of \<^verbatim>\<open>get_child_at_index\<close>: the address of the element.\<close>

definition element_address :: "host \<Rightarrow> hashmap_provider \<Rightarrow> int \<Rightarrow> py_error + int" where
  "element_address h self index =
     (let pairs_start = GetValueAsUnsigned h (hm_data_ptr self)
      in case py_getitem (hm_valid_indices self) index of
           Inl e \<Rightarrow> Inl e
         | Inr idx0 \<Rightarrow>
            (let idx = (if hm_new_layout self then - (idx0 + 1) else idx0);
                 address = pairs_start + idx * hm_pair_type_size self
             in Inr address))"

definition hashmap_get_child_at_index ::
  "host \<Rightarrow> hashmap_provider \<Rightarrow> int \<Rightarrow> py_error + sbvalue" where
  "hashmap_get_child_at_index h self index =
     (case element_address h self index of
        Inl e \<Rightarrow> Inl e
      | Inr address \<Rightarrow>
         (case CreateValueFromAddress (hm_data_ptr self) (child_name index) address
                 (hm_pair_type self) of
            Inl e \<Rightarrow> Inl e
          | Inr element \<Rightarrow>
             (if hm_show_values self then Inr element
              else (let key = GetChildAtIndex h element 0
                    in Inr (CreateValueFromData (hm_valobj self) (child_name index)
                              (GetData h key) (GetType key))))))"

section \<open>Quantities the statements below speak of\<close>

text \<open>
  The locals of \<^verbatim>\<open>update\<close> in \<^verbatim>\<open>hashmap.py\<close>, as functions of the inspected
  value: the inner table, \<^verbatim>\<open>bucket_mask\<close>, \<^verbatim>\<open>capacity\<close>, the header's
  \<^verbatim>\<open>items\<close>, the control pointer, and the byte the loop reads for slot \<open>i\<close>
  (the \<^verbatim>\<open>unsigned char\<close> at the control pointer's address plus \<open>i\<close>).
\<close>

definition inner_table :: "host \<Rightarrow> provider_class \<Rightarrow> sbvalue \<Rightarrow> sbvalue" where
  "inner_table h cls valobj = GetChildMemberWithName h (table h cls valobj) ''table''"

definition bucket_mask :: "host \<Rightarrow> provider_class \<Rightarrow> sbvalue \<Rightarrow> int" where
  "bucket_mask h cls valobj =
     GetValueAsUnsigned h (GetChildMemberWithName h (inner_table h cls valobj) ''bucket_mask'')"

definition capacity :: "host \<Rightarrow> provider_class \<Rightarrow> sbvalue \<Rightarrow> int" where
  "capacity h cls valobj = bucket_mask h cls valobj + 1"

definition items_count :: "host \<Rightarrow> provider_class \<Rightarrow> sbvalue \<Rightarrow> int" where
  "items_count h cls valobj =
     GetValueAsUnsigned h (GetChildMemberWithName h (inner_table h cls valobj) ''items'')"

definition control_pointer :: "host \<Rightarrow> provider_class \<Rightarrow> sbvalue \<Rightarrow> sbvalue" where
  "control_pointer h cls valobj =
     GetChildAtIndex h (GetChildMemberWithName h (inner_table h cls valobj) ''ctrl'') 0"

definition control_base :: "host \<Rightarrow> provider_class \<Rightarrow> sbvalue \<Rightarrow> int" where
  "control_base h cls valobj = GetValueAsUnsigned h (control_pointer h cls valobj)"

definition control_byte :: "host \<Rightarrow> provider_class \<Rightarrow> sbvalue \<Rightarrow> int \<Rightarrow> int" where
  "control_byte h cls valobj i =
     GetValueAsUnsigned h
       (ValueFromAddress (control_pointer h cls valobj) (ctrl_name i)
          (control_base h cls valobj + i) (BasicType ''unsigned char'' 1))"

text \<open>
  The last address the loop of \<^verbatim>\<open>update\<close> hands to the host is the control
  pointer's address plus \<^verbatim>\<open>bucket_mask\<close>.
\<close>

definition scan_fits :: "host \<Rightarrow> provider_class \<Rightarrow> sbvalue \<Rightarrow> bool" where
  "scan_fits h cls valobj = (control_base h cls valobj + bucket_mask h cls valobj < 2 ^ 64)"

definition element_base :: "host \<Rightarrow> hashmap_provider \<Rightarrow> int" where
  "element_base h self = GetValueAsUnsigned h (hm_data_ptr self)"

definition raw_pair :: "hashmap_provider \<Rightarrow> int \<Rightarrow> int \<Rightarrow> sbvalue" where
  "raw_pair self k address =
     ValueFromAddress (hm_data_ptr self) (child_name k) address (hm_pair_type self)"

text \<open>
  The buffer's pointer field of a vector (\<^verbatim>\<open>valobj.buf.inner.ptr\<close>) and its member
  \<^verbatim>\<open>pointer\<close>, which \<^verbatim>\<open>unwrap_unique_or_non_null\<close> looks at.
\<close>

definition buffer_pointer_field :: "host \<Rightarrow> sbvalue \<Rightarrow> sbvalue" where
  "buffer_pointer_field h valobj =
     GetChildMemberWithName h
       (GetChildMemberWithName h (GetChildMemberWithName h valobj ''buf'') ''inner'') ''ptr''"

definition pointer_member :: "host \<Rightarrow> sbvalue \<Rightarrow> sbvalue" where
  "pointer_member h valobj = GetChildMemberWithName h (buffer_pointer_field h valobj) ''pointer''"

text \<open>
  The name a value carries: for a value made by \<^verbatim>\<open>CreateValueFromAddress\<close> or
  \<^verbatim>\<open>CreateValueFromData\<close>, the name it was made with.
\<close>

definition name_of_node :: "sbnode \<Rightarrow> string" where
  "name_of_node n = (case n of InvalidNode \<Rightarrow> [] | Node nm t u d cs \<Rightarrow> nm)"

fun name_of :: "sbvalue \<Rightarrow> string" where
  "name_of (HostValue n) = name_of_node n"
| "name_of (ValueFromAddress recv name a t) = name"
| "name_of (CreateValueFromData recv name d t) = name"
| "name_of (Cast v t) = name_of v"

text \<open>The number a string of decimal digits denotes.\<close>

definition decimal_value :: "string \<Rightarrow> int" where
  "decimal_value s = foldl (\<lambda>acc c. 10 * acc + digit_value c) 0 s"

text \<open>
  The bracketed-decimal form of the specification, \<^verbatim>\<open>^\[\d+\]$\<close>: an opening bracket,
  one or more decimal digits, a closing bracket.
\<close>

definition bracketed_decimal :: "string \<Rightarrow> bool" where
  "bracketed_decimal s =
     (case s of
        [] \<Rightarrow> False
      | c # r \<Rightarrow> c = CHR ''['' \<and> r \<noteq> [] \<and> last r = CHR '']'' \<and> butlast r \<noteq> []
                 \<and> list_all is_decimal (butlast r))"

section \<open>Concrete values\<close>

text \<open>
  A debuggee with eight control bytes at address \<open>0x2000\<close>, of which slots 0, 2 and 7
  have the high bit clear; pairs of a \<^verbatim>\<open>u32\<close> key and a \<^verbatim>\<open>u64\<close> value,
  16 bytes each. \<open>ex_map\<close> builds a \<^verbatim>\<open>HashMap<u32, u64>\<close> value: with or without
  the \<^verbatim>\<open>bucket_mask\<close> field, with the control pointer given, with or without the
  \<^verbatim>\<open>data\<close> field of the old layout (at \<open>0x3000\<close>), and with the given
  \<^verbatim>\<open>items\<close>.
\<close>

definition u8_t :: sbtype where "u8_t = BasicType ''unsigned char'' 1"
definition u32_t :: sbtype where "u32_t = BasicType ''u32'' 4"
definition u64_t :: sbtype where "u64_t = BasicType ''u64'' 8"
definition usize_t :: sbtype where "usize_t = BasicType ''usize'' 8"
definition pair_t :: sbtype where "pair_t = StructType ''(u32, u64)'' 16 [u32_t, u64_t]"

definition ex_ctrl_bytes :: "64 word list" where
  "ex_ctrl_bytes = [0x00, 0xFF, 0x12, 0x80, 0x80, 0xFF, 0x80, 0x7F]"

definition ex_host :: host where
  "ex_host =
     \<lparr> value_at = (\<lambda>a t.
          if t = u8_t then
            (if 0x2000 \<le> a \<and> a < 0x2008 then Node [] u8_t (ex_ctrl_bytes ! nat (a - 0x2000)) [] []
             else InvalidNode)
          else if t = pair_t then
            Node [] pair_t 0 []
              [Node ''__0'' u32_t (word_of_int a) [word_of_int a] [], Node ''__1'' u64_t 7 [7] []]
          else InvalidNode),
       value_of_data = (\<lambda>d t. InvalidNode) \<rparr>"

definition ex_inner :: "64 word option \<Rightarrow> 64 word \<Rightarrow> bool \<Rightarrow> 64 word \<Rightarrow> sbnode" where
  "ex_inner bmask ctrl with_data items =
     Node ''table'' (StructType ''hashbrown::raw::RawTableInner'' 32 []) 0 []
       ((case bmask of None \<Rightarrow> [] | Some m \<Rightarrow> [Node ''bucket_mask'' usize_t m [] []]) @
        [Node ''ctrl'' (StructType ''core::ptr::non_null::NonNull<u8>'' 8 [u8_t]) 0 []
           [Node ''pointer'' (PointerType u8_t) ctrl [] []],
         Node ''items'' usize_t items [] []] @
        (if with_data then
           [Node ''data'' (StructType ''core::ptr::non_null::NonNull<(u32, u64)>'' 8 [pair_t]) 0 []
              [Node ''pointer'' (PointerType pair_t) 0x3000 [] []]]
         else []))"

definition ex_raw_table :: "64 word option \<Rightarrow> 64 word \<Rightarrow> bool \<Rightarrow> 64 word \<Rightarrow> sbnode" where
  "ex_raw_table bmask ctrl with_data items =
     Node ''table'' (StructType ''hashbrown::raw::RawTable<(u32, u64)>'' 32 [pair_t]) 0 []
       [ex_inner bmask ctrl with_data items]"

definition ex_map :: "64 word option \<Rightarrow> 64 word \<Rightarrow> bool \<Rightarrow> 64 word \<Rightarrow> sbvalue" where
  "ex_map bmask ctrl with_data items =
     HostValue
       (Node ''m'' (StructType ''std::collections::hash::map::HashMap<u32, u64>'' 48 [u32_t, u64_t])
          0 []
          [Node ''base'' (StructType ''hashbrown::map::HashMap<u32, u64>'' 48 [u32_t, u64_t]) 0 []
             [ex_raw_table bmask ctrl with_data items]])"

definition ex_set :: sbvalue where
  "ex_set =
     HostValue
       (Node ''s'' (StructType ''std::collections::hash::set::HashSet<u32>'' 48 [u32_t]) 0 []
          [Node ''base'' (StructType ''hashbrown::set::HashSet<u32>'' 48 [u32_t]) 0 []
             [Node ''map'' (StructType ''hashbrown::map::HashMap<u32, ()>'' 48 [u32_t]) 0 []
                [ex_raw_table (Some 7) 0x2000 False 3]]])"

text \<open>
  \<open>ex_set\<close> is a set value over the same table. \<open>ex_slice\<close> is a slice of three
  \<^verbatim>\<open>u32\<close> at \<open>0x1000\<close>. \<open>ex_vec\<close> builds a vector of three \<^verbatim>\<open>u32\<close>
  whose buffer's pointer field has the given member \<^verbatim>\<open>pointer\<close>: a raw pointer to
  \<open>0x1000\<close>, or wrappers around one.
\<close>

definition ex_slice :: sbvalue where
  "ex_slice =
     HostValue
       (Node ''s'' (StructType ''&[u32]'' 16 []) 0 []
          [Node ''data_ptr'' (PointerType u32_t) 0x1000 [] [], Node ''length'' usize_t 3 [] []])"

definition ex_vec :: "sbnode \<Rightarrow> sbvalue" where
  "ex_vec member =
     HostValue
       (Node ''v'' (StructType ''alloc::vec::Vec<u32>'' 24 [u32_t]) 0 []
          [Node ''buf'' (StructType ''alloc::raw_vec::RawVec<u32>'' 16 [u32_t]) 0 []
             [Node ''inner'' (StructType ''alloc::raw_vec::RawVecInner'' 16 []) 0 []
                [Node ''ptr'' (StructType ''core::ptr::unique::Unique<u32>'' 8 [u32_t]) 0 []
                   [member]]],
           Node ''len'' usize_t 3 [] []])"

definition ex_raw_pointer :: "string \<Rightarrow> sbnode" where
  "ex_raw_pointer name = Node name (PointerType u32_t) 0x1000 [] []"

definition ex_non_null :: "sbnode \<Rightarrow> sbnode" where
  "ex_non_null inner =
     Node ''pointer'' (StructType ''core::ptr::non_null::NonNull<u32>'' 8 [u32_t]) 0 [] [inner]"

definition ex_non_zero :: "sbnode \<Rightarrow> sbnode" where
  "ex_non_zero inner =
     Node ''pointer'' (StructType ''core::nonzero::NonZero<*const u32>'' 8 [PointerType u32_t]) 0 []
       [inner]"

definition ex_new_provider :: hashmap_provider where
  "ex_new_provider =
     \<lparr> hm_class = StdHashMapSyntheticProvider, hm_valobj = ex_map (Some 7) 0x2000 False 3,
       hm_show_values = True, hm_size = 3, hm_pair_type = pair_t, hm_pair_type_size = 16,
       hm_new_layout = True,
       hm_data_ptr = Cast (HostValue (Node ''pointer'' (PointerType u8_t) 0x2000 [] []))
                       (PointerType pair_t),
       hm_valid_indices = [0, 2, 7] \<rparr>"

definition ex_old_provider :: hashmap_provider where
  "ex_old_provider =
     \<lparr> hm_class = StdHashMapSyntheticProvider, hm_valobj = ex_map (Some 7) 0x2000 True 3,
       hm_show_values = True, hm_size = 3, hm_pair_type = pair_t, hm_pair_type_size = 16,
       hm_new_layout = False,
       hm_data_ptr = HostValue (Node ''pointer'' (PointerType pair_t) 0x3000 [] []),
       hm_valid_indices = [0, 2, 7] \<rparr>"

definition ex_set_provider :: hashmap_provider where
  "ex_set_provider =
     \<lparr> hm_class = StdHashSetSyntheticProvider, hm_valobj = ex_set,
       hm_show_values = False, hm_size = 3, hm_pair_type = pair_t, hm_pair_type_size = 16,
       hm_new_layout = True,
       hm_data_ptr = Cast (HostValue (Node ''pointer'' (PointerType u8_t) 0x2000 [] []))
                       (PointerType pair_t),
       hm_valid_indices = [0, 2, 7] \<rparr>"

definition ex_mismatch_provider :: hashmap_provider where
  "ex_mismatch_provider =
     \<lparr> hm_class = StdHashMapSyntheticProvider, hm_valobj = ex_map (Some 7) 0x2000 False 5,
       hm_show_values = True, hm_size = 5, hm_pair_type = pair_t, hm_pair_type_size = 16,
       hm_new_layout = True,
       hm_data_ptr = Cast (HostValue (Node ''pointer'' (PointerType u8_t) 0x2000 [] []))
                       (PointerType pair_t),
       hm_valid_indices = [0, 2, 7] \<rparr>"

definition ex_empty_provider :: hashmap_provider where
  "ex_empty_provider =
     \<lparr> hm_class = StdHashMapSyntheticProvider, hm_valobj = ex_map (Some 0) 0x2001 False 0,
       hm_show_values = True, hm_size = 0, hm_pair_type = pair_t, hm_pair_type_size = 16,
       hm_new_layout = True,
       hm_data_ptr = Cast (HostValue (Node ''pointer'' (PointerType u8_t) 0x2001 [] []))
                       (PointerType pair_t),
       hm_valid_indices = [] \<rparr>"

section \<open>Facts about the built-ins\<close>

lemma is_decimal_char_of: "(n::nat) < 10 \<Longrightarrow> is_decimal (char_of (48 + n))"
  by (simp add: is_decimal_def)

lemma digit_value_char_of: "(n::nat) < 10 \<Longrightarrow> digit_value (char_of (48 + n)) = int n"
  by (simp add: digit_value_def)

lemma digits_of_nonempty: "digits_of n \<noteq> []"
  by (subst digits_of.simps) simp

lemma digits_of_decimal: "list_all is_decimal (digits_of n)"
proof (induction n rule: digits_of.induct)
  case (1 n)
  show ?case
  proof (cases "n < 10")
    case True
    then show ?thesis by (subst digits_of.simps) (simp add: is_decimal_char_of)
  next
    case False
    with 1 have "list_all is_decimal (digits_of (n div 10))" by simp
    moreover have "is_decimal (char_of (48 + n mod 10))" by (rule is_decimal_char_of) simp
    ultimately show ?thesis using False by (subst digits_of.simps) simp
  qed
qed

lemma digits_of_value:
  "foldl (\<lambda>acc c. 10 * acc + digit_value c) 0 (digits_of n) = int n"
proof (induction n rule: digits_of.induct)
  case (1 n)
  show ?case
  proof (cases "n < 10")
    case True
    then show ?thesis by (subst digits_of.simps) (simp add: digit_value_char_of)
  next
    case False
    with 1 have ih: "foldl (\<lambda>acc c. 10 * acc + digit_value c) 0 (digits_of (n div 10)) = int (n div 10)"
      by simp
    have d: "digit_value (char_of (48 + n mod 10)) = int (n mod 10)"
      by (rule digit_value_char_of) simp
    have "int n = 10 * int (n div 10) + int (n mod 10)"
      by (metis mult_div_mod_eq of_nat_add of_nat_mult of_nat_numeral)
    then show ?thesis using False ih d by (subst digits_of.simps) simp
  qed
qed

lemma decimal_not_bracket: "is_decimal c \<Longrightarrow> c \<noteq> CHR ''['' \<and> c \<noteq> CHR '']''"
  by (auto simp: is_decimal_def)

lemma strip_bracketed:
  assumes "ds \<noteq> []" and "list_all is_decimal ds"
  shows "rstrip CHR '']'' (lstrip CHR ''['' (CHR ''['' # ds @ '']'')) = ds"
proof -
  from assms have h: "hd ds \<noteq> CHR ''[''"
    by (cases ds) (auto dest: decimal_not_bracket)
  from assms have l: "last ds \<noteq> CHR '']''"
    by (cases ds rule: rev_cases) (auto dest: decimal_not_bracket)
  from assms h have "lstrip CHR ''['' (CHR ''['' # ds @ '']'') = ds @ '']''"
    by (cases ds) (simp_all add: lstrip_def)
  moreover have "rstrip CHR '']'' (ds @ '']'') = ds"
    using assms l by (cases ds rule: rev_cases) (simp_all add: rstrip_def)
  ultimately show ?thesis by simp
qed

lemma decimal_imp_digit: "list_all is_decimal s \<Longrightarrow> list_all is_digit s"
  by (induction s) (auto simp: is_digit_def)

lemma index_of_child_name:
  assumes "0 \<le> k"
  shows "rstrip CHR '']'' (lstrip CHR ''['' (child_name k)) = digits_of (nat k)"
    and "isdigit (digits_of (nat k))" and "py_int (digits_of (nat k)) = Inr k"
  using assms
  by (simp_all add: child_name_def py_str_def strip_bracketed digits_of_nonempty digits_of_decimal
      isdigit_def decimal_imp_digit py_int_def digits_of_value)

lemma decimal_value_nonneg:
  "list_all is_decimal s \<Longrightarrow> 0 \<le> acc \<Longrightarrow> 0 \<le> foldl (\<lambda>acc c. 10 * acc + digit_value c) acc s"
proof (induction s arbitrary: acc)
  case Nil then show ?case by simp
next
  case (Cons c s)
  then have "0 \<le> digit_value c" by (simp add: is_decimal_def digit_value_def)
  with Cons show ?case by simp
qed

lemma py_int_not_minus_one: "py_int s \<noteq> Inr (- 1)"
  using decimal_value_nonneg [of s 0] by (auto simp: py_int_def)

lemma getitem_in_range:
  "0 \<le> k \<Longrightarrow> k < int (length xs) \<Longrightarrow> py_getitem xs k = Inr (xs ! nat k)"
  by (simp add: py_getitem_def)

lemma getitem_error_iff:
  "py_getitem xs k = Inl IndexError \<longleftrightarrow> (int (length xs) \<le> k \<or> k < - int (length xs))"
  by (auto simp: py_getitem_def)

lemma getitem_error_only: "py_getitem xs k = Inl e \<Longrightarrow> e = IndexError"
  by (auto simp: py_getitem_def split: if_splits)

lemma py_range_sorted: "sorted_wrt (<) (py_range n)"
  by (simp add: py_range_def sorted_wrt_map)

lemma py_range_one: "py_range 1 = [0]"
  by (simp add: py_range_def)

section \<open>Facts about the host protocol and \<^verbatim>\<open>update\<close>\<close>

lemma GetValueAsUnsigned_range: "0 \<le> GetValueAsUnsigned h v \<and> GetValueAsUnsigned h v < 2 ^ 64"
proof (cases "view h v")
  case InvalidNode
  then show ?thesis by (simp add: GetValueAsUnsigned_def)
next
  case (Node n t u d cs)
  have "uint u < 2 ^ 64" using uint_lt2p [of u] by simp
  with Node show ?thesis by (simp add: GetValueAsUnsigned_def)
qed

lemma view_invalid: "\<not> IsValid v \<Longrightarrow> view h v = InvalidNode"
  by (induction v) auto

lemma member_of_invalid:
  "\<not> IsValid v \<Longrightarrow> GetChildMemberWithName h v name = HostValue InvalidNode"
  by (simp add: GetChildMemberWithName_def children_def view_invalid)

lemma table_of_invalid: "\<not> IsValid valobj \<Longrightarrow> table h cls valobj = HostValue InvalidNode"
  by (cases cls) (simp_all add: member_of_invalid)

lemma template_args_valid:
  "template_args (GetType (table h cls valobj)) = Some targs \<Longrightarrow> IsValid valobj"
  by (rule ccontr) (simp add: table_of_invalid template_args_def)

lemma set_py_range: "set (py_range n) = {i. 0 \<le> i \<and> i < n}"
proof (rule set_eqI)
  fix x
  show "x \<in> set (py_range n) \<longleftrightarrow> x \<in> {i. 0 \<le> i \<and> i < n}"
  proof
    assume "x \<in> set (py_range n)"
    then show "x \<in> {i. 0 \<le> i \<and> i < n}" by (auto simp: py_range_def)
  next
    assume "x \<in> {i. 0 \<le> i \<and> i < n}"
    then have "nat x < nat n" and "int (nat x) = x" by auto
    then have "int (nat x) \<in> int ` {0 ..< nat n}" by (intro imageI) simp
    with \<open>int (nat x) = x\<close> show "x \<in> set (py_range n)" by (simp add: py_range_def)
  qed
qed

lemma scan_slots_result:
  "scan_slots h ctrl t sz acc xs =
     (if \<forall>i\<in>set xs. fits_addr_t (GetValueAsUnsigned h ctrl + i * sz)
      then Inr (acc @ filter (\<lambda>i. GetValueAsUnsigned h (ValueFromAddress ctrl (ctrl_name i)
                                   (GetValueAsUnsigned h ctrl + i * sz) t) AND 128 = 0) xs)
      else Inl OverflowError)"
proof (induction xs arbitrary: acc)
  case Nil
  then show ?case by simp
next
  case (Cons x xs)
  show ?case
  proof (cases "fits_addr_t (GetValueAsUnsigned h ctrl + x * sz)")
    case True
    then show ?thesis
      by (simp add: scan_slot_def CreateValueFromAddress_def Let_def Cons.IH)
  next
    case False
    then show ?thesis
      by (simp add: scan_slot_def CreateValueFromAddress_def Let_def)
  qed
qed

lemma range_fits:
  assumes "0 \<le> b" and "0 \<le> m"
  shows "(\<forall>i\<in>set (py_range (m + 1)). fits_addr_t (b + i * 1)) \<longleftrightarrow> b + m < 2 ^ 64"
proof
  assume a: "\<forall>i\<in>set (py_range (m + 1)). fits_addr_t (b + i * 1)"
  from assms have "m \<in> set (py_range (m + 1))" by (simp add: set_py_range)
  with a have "fits_addr_t (b + m * 1)" by blast
  then show "b + m < 2 ^ 64" by (simp add: fits_addr_t_def)
next
  assume "b + m < 2 ^ 64"
  with assms show "\<forall>i\<in>set (py_range (m + 1)). fits_addr_t (b + i * 1)"
    by (auto simp: set_py_range fits_addr_t_def)
qed

lemma update_unfold:
  assumes t: "template_args (GetType (table h cls valobj)) = Some targs"
  shows "hashmap_update h cls valobj sv =
     (if scan_fits h cls valobj
      then Inr \<lparr> hm_class = cls, hm_valobj = valobj, hm_show_values = sv,
                 hm_size = items_count h cls valobj,
                 hm_pair_type = (if IsTypedefType (targs ! 0) then GetTypedefedType (targs ! 0)
                                 else targs ! 0),
                 hm_pair_type_size = GetByteSize (if IsTypedefType (targs ! 0)
                                                  then GetTypedefedType (targs ! 0) else targs ! 0),
                 hm_new_layout = (\<not> IsValid (GetChildMemberWithName h (inner_table h cls valobj) ''data'')),
                 hm_data_ptr =
                   (if \<not> IsValid (GetChildMemberWithName h (inner_table h cls valobj) ''data'')
                    then Cast (control_pointer h cls valobj)
                           (GetPointerType (if IsTypedefType (targs ! 0)
                                            then GetTypedefedType (targs ! 0) else targs ! 0))
                    else GetChildAtIndex h
                           (GetChildMemberWithName h (inner_table h cls valobj) ''data'') 0),
                 hm_valid_indices =
                   filter (\<lambda>i. control_byte h cls valobj i AND 128 = 0)
                     (py_range (capacity h cls valobj)) \<rparr>
      else Inl OverflowError)"
proof -
  from t have v: "IsValid valobj" by (rule template_args_valid)
  have r: "0 \<le> control_base h cls valobj" "0 \<le> bucket_mask h cls valobj"
    using GetValueAsUnsigned_range by (simp_all add: control_base_def bucket_mask_def)
  have f: "(\<forall>i\<in>set (py_range (bucket_mask h cls valobj + 1)).
              fits_addr_t (control_base h cls valobj + i)) \<longleftrightarrow> scan_fits h cls valobj"
    unfolding scan_fits_def using range_fits [OF r] by simp
  have s: "scan_slots h (control_pointer h cls valobj) (BasicType ''unsigned char'' (Suc 0)) 1 []
             (py_range (capacity h cls valobj)) =
           (if scan_fits h cls valobj
            then Inr (filter (\<lambda>i. control_byte h cls valobj i AND 128 = 0)
                        (py_range (capacity h cls valobj)))
            else Inl OverflowError)"
    unfolding scan_slots_result capacity_def control_base_def [symmetric]
    using f by (simp add: control_byte_def)
  have c: "GetValueAsUnsigned h
             (GetChildMemberWithName h (GetChildMemberWithName h (table h cls valobj) ''table'')
                ''bucket_mask'') + 1 = capacity h cls valobj"
    by (simp add: capacity_def bucket_mask_def inner_table_def)
  have p: "GetChildAtIndex h
             (GetChildMemberWithName h (GetChildMemberWithName h (table h cls valobj) ''table'')
                ''ctrl'') 0 = control_pointer h cls valobj"
    by (simp add: control_pointer_def inner_table_def)
  show ?thesis
    unfolding hashmap_update_def Let_def t c p
    using v by (simp add: GetTarget_def s items_count_def inner_table_def del: table.simps)
qed

lemma update_fields:
  assumes "hashmap_update h cls valobj sv = Inr self"
  shows "hm_valid_indices self =
           filter (\<lambda>i. control_byte h cls valobj i AND 128 = 0) (py_range (capacity h cls valobj))"
    and "hm_size self = items_count h cls valobj"
    and "hm_valobj self = valobj" and "hm_show_values self = sv" and "hm_class self = cls"
    and "template_args (GetType (table h cls valobj)) \<noteq> None"
    and "hm_new_layout self = (\<not> IsValid (GetChildMemberWithName h (inner_table h cls valobj) ''data''))"
    and "scan_fits h cls valobj"
proof -
  from assms obtain targs where t: "template_args (GetType (table h cls valobj)) = Some targs"
    by (cases "template_args (GetType (table h cls valobj))")
       (auto simp: hashmap_update_def Let_def)
  from t show "template_args (GetType (table h cls valobj)) \<noteq> None" by simp
  from assms show f: "scan_fits h cls valobj"
    unfolding update_unfold [OF t] by (simp split: if_splits)
  from assms f have e: "self = \<lparr> hm_class = cls, hm_valobj = valobj, hm_show_values = sv,
                 hm_size = items_count h cls valobj,
                 hm_pair_type = (if IsTypedefType (targs ! 0) then GetTypedefedType (targs ! 0)
                                 else targs ! 0),
                 hm_pair_type_size = GetByteSize (if IsTypedefType (targs ! 0)
                                                  then GetTypedefedType (targs ! 0) else targs ! 0),
                 hm_new_layout = (\<not> IsValid (GetChildMemberWithName h (inner_table h cls valobj) ''data'')),
                 hm_data_ptr =
                   (if \<not> IsValid (GetChildMemberWithName h (inner_table h cls valobj) ''data'')
                    then Cast (control_pointer h cls valobj)
                           (GetPointerType (if IsTypedefType (targs ! 0)
                                            then GetTypedefedType (targs ! 0) else targs ! 0))
                    else GetChildAtIndex h
                           (GetChildMemberWithName h (inner_table h cls valobj) ''data'') 0),
                 hm_valid_indices =
                   filter (\<lambda>i. control_byte h cls valobj i AND 128 = 0)
                     (py_range (capacity h cls valobj)) \<rparr>"
    unfolding update_unfold [OF t] by simp
  show "hm_valid_indices self =
           filter (\<lambda>i. control_byte h cls valobj i AND 128 = 0) (py_range (capacity h cls valobj))"
    unfolding e by simp
  show "hm_size self = items_count h cls valobj" unfolding e by simp
  show "hm_valobj self = valobj" unfolding e by simp
  show "hm_show_values self = sv" unfolding e by simp
  show "hm_class self = cls" unfolding e by simp
  show "hm_new_layout self = (\<not> IsValid (GetChildMemberWithName h (inner_table h cls valobj) ''data''))"
    unfolding e by simp
qed

lemma update_succeeds:
  assumes "template_args (GetType (table h cls valobj)) \<noteq> None" and "scan_fits h cls valobj"
  shows "\<exists>self. hashmap_update h cls valobj sv = Inr self"
proof -
  from assms(1) obtain targs where t: "template_args (GetType (table h cls valobj)) = Some targs"
    by auto
  show ?thesis unfolding update_unfold [OF t] using assms(2) by simp
qed

lemma update_overflows:
  assumes "template_args (GetType (table h cls valobj)) \<noteq> None" and "\<not> scan_fits h cls valobj"
  shows "hashmap_update h cls valobj sv = Inl OverflowError"
proof -
  from assms(1) obtain targs where t: "template_args (GetType (table h cls valobj)) = Some targs"
    by auto
  show ?thesis unfolding update_unfold [OF t] using assms(2) by simp
qed

lemma update_fails:
  assumes "template_args (GetType (table h cls valobj)) = None"
  shows "hashmap_update h cls valobj sv = Inl TypeError"
  using assms by (auto simp: hashmap_update_def Let_def split: option.splits)

lemma element_address_error_iff:
  "element_address h self k = Inl IndexError \<longleftrightarrow>
     (int (length (hm_valid_indices self)) \<le> k \<or> k < - int (length (hm_valid_indices self)))"
  using getitem_error_iff [of "hm_valid_indices self" k]
  by (auto simp: element_address_def Let_def split: sum.splits dest: getitem_error_only)

lemma child_at_result:
  "hashmap_get_child_at_index h self k =
     (case element_address h self k of
        Inl e \<Rightarrow> Inl e
      | Inr a \<Rightarrow>
         if fits_addr_t a
         then (if hm_show_values self then Inr (raw_pair self k a)
               else Inr (CreateValueFromData (hm_valobj self) (child_name k)
                           (GetData h (GetChildAtIndex h (raw_pair self k a) 0))
                           (GetType (GetChildAtIndex h (raw_pair self k a) 0))))
         else Inl OverflowError)"
  by (simp add: hashmap_get_child_at_index_def CreateValueFromAddress_def raw_pair_def Let_def
      split: sum.splits)

lemma element_address_error_only: "element_address h self k = Inl e \<Longrightarrow> e = IndexError"
  by (auto simp: element_address_def Let_def split: sum.splits dest: getitem_error_only)

lemma child_at_index_error_iff:
  "hashmap_get_child_at_index h self k = Inl IndexError
     \<longleftrightarrow> element_address h self k = Inl IndexError"
  by (auto simp: child_at_result split: sum.splits if_splits dest: element_address_error_only)

lemma child_at_name:
  "hashmap_get_child_at_index h m k = Inr c \<Longrightarrow> name_of c = child_name k"
  by (auto simp: child_at_result raw_pair_def split: sum.splits if_splits)

lemma created_name:
  "CreateValueFromAddress recv name a t = Inr c \<Longrightarrow> name_of c = name"
  by (auto simp: CreateValueFromAddress_def split: if_splits)

lemma vec_data_ptr_update:
  "vec_data_ptr (vec_update h valobj) =
     (if TypeIsPointerType (pointer_member h valobj) then pointer_member h valobj
      else GetChildAtIndex h (pointer_member h valobj) 0)"
  by (simp add: vec_update_def Let_def unwrap_unique_or_non_null_def pointer_member_def
      buffer_pointer_field_def)

text \<open>What \<^verbatim>\<open>update\<close> computes on the concrete values.\<close>

lemma ex_new_update:
  "hashmap_update ex_host StdHashMapSyntheticProvider (ex_map (Some 7) 0x2000 False 3) True
     = Inr ex_new_provider"
  by code_simp

lemma ex_old_update:
  "hashmap_update ex_host StdHashMapSyntheticProvider (ex_map (Some 7) 0x2000 True 3) True
     = Inr ex_old_provider"
  by code_simp

lemma ex_set_update: "StdHashSetSyntheticProvider_init ex_host ex_set = Inr ex_set_provider"
  by code_simp

lemma ex_mismatch_update:
  "hashmap_update ex_host StdHashMapSyntheticProvider (ex_map (Some 7) 0x2000 False 5) True
     = Inr ex_mismatch_provider"
  by code_simp

lemma ex_empty_update:
  "hashmap_update ex_host StdHashMapSyntheticProvider (ex_map (Some 0) 0x2001 False 0) True
     = Inr ex_empty_provider"
  by code_simp

lemma ex_map_init:
  "StdHashMapSyntheticProvider_init ex_host (ex_map (Some 7) 0x2000 False 3) True
     = Inr ex_new_provider"
  by code_simp

section \<open>The hash-table provider\<close>

text \<open>
  C1. After every \<^verbatim>\<open>update()\<close> of the hash-table provider that returns,
  \<^verbatim>\<open>valid_indices\<close> is exactly the list of the physical slots \<open>i\<close> with
  \<open>0 \<le> i < capacity\<close> whose control byte has the high bit clear
  (\<open>byte AND 0x80 = 0\<close>), in strictly increasing order; every other slot, and every
  index from \<open>capacity\<close> on, is left out.
\<close>

theorem valid_slots_exact:
  "hashmap_update h cls valobj sv = Inr self \<Longrightarrow>
   hm_valid_indices self =
     filter (\<lambda>i. control_byte h cls valobj i AND 128 = 0) (py_range (capacity h cls valobj))
   \<and> set (hm_valid_indices self) =
       {i. 0 \<le> i \<and> i < capacity h cls valobj \<and> control_byte h cls valobj i AND 128 = 0}
   \<and> sorted_wrt (<) (hm_valid_indices self)"
proof -
  assume u: "hashmap_update h cls valobj sv = Inr self"
  have a: "hm_valid_indices self =
           filter (\<lambda>i. control_byte h cls valobj i AND 128 = 0) (py_range (capacity h cls valobj))"
    using u by (rule update_fields)
  have b: "set (hm_valid_indices self) =
           {i. 0 \<le> i \<and> i < capacity h cls valobj \<and> control_byte h cls valobj i AND 128 = 0}"
    unfolding a by (auto simp: set_py_range)
  have c: "sorted_wrt (<) (hm_valid_indices self)"
    unfolding a by (rule sorted_wrt_filter) (rule py_range_sorted)
  from a b c show ?thesis by blast
qed

text \<open>
  C1 on the concrete table: capacity 8, control bytes
  \<open>00 FF 12 80 80 FF 80 7F\<close>, so the valid slots are 0, 2 and 7.
\<close>

theorem valid_slots_exact_witness:
  "hashmap_update ex_host StdHashMapSyntheticProvider (ex_map (Some 7) 0x2000 False 3) True
     = Inr ex_new_provider
   \<and> hm_valid_indices ex_new_provider = [0, 2, 7]
   \<and> filter (\<lambda>i. control_byte ex_host StdHashMapSyntheticProvider (ex_map (Some 7) 0x2000 False 3) i
                    AND 128 = 0)
        (py_range (capacity ex_host StdHashMapSyntheticProvider (ex_map (Some 7) 0x2000 False 3)))
      = [0, 2, 7]
   \<and> sorted_wrt (<) (hm_valid_indices ex_new_provider)"
proof -
  have v: "hm_valid_indices ex_new_provider = [0, 2, 7]"
    by (simp add: ex_new_provider_def)
  note w = valid_slots_exact [OF ex_new_update]
  from w have "hm_valid_indices ex_new_provider =
      filter (\<lambda>i. control_byte ex_host StdHashMapSyntheticProvider (ex_map (Some 7) 0x2000 False 3) i
                    AND 128 = 0)
        (py_range (capacity ex_host StdHashMapSyntheticProvider (ex_map (Some 7) 0x2000 False 3)))"
    by blast
  with v have f: "filter (\<lambda>i. control_byte ex_host StdHashMapSyntheticProvider
                      (ex_map (Some 7) 0x2000 False 3) i AND 128 = 0)
        (py_range (capacity ex_host StdHashMapSyntheticProvider (ex_map (Some 7) 0x2000 False 3)))
      = [0, 2, 7]"
    by simp
  from w have s: "sorted_wrt (<) (hm_valid_indices ex_new_provider)"
    by blast
  from ex_new_update v f s show ?thesis
    by blast
qed

text \<open>
  C2, as stated, fails. The header says \<^verbatim>\<open>items = 5\<close> and three slots are valid:
  index 3 is below \<^verbatim>\<open>num_children()\<close>, and \<^verbatim>\<open>get_child_at_index(3)\<close>
  raises \<^verbatim>\<open>IndexError\<close> at \<^verbatim>\<open>valid_indices[index]\<close>; no address is
  computed.
\<close>

theorem in_range_counterexample:
  "hashmap_update ex_host StdHashMapSyntheticProvider (ex_map (Some 7) 0x2000 False 5) True
     = Inr ex_mismatch_provider
   \<and> hashmap_num_children ex_mismatch_provider = 5
   \<and> hm_valid_indices ex_mismatch_provider = [0, 2, 7]
   \<and> element_address ex_host ex_mismatch_provider 3 = Inl IndexError
   \<and> hashmap_get_child_at_index ex_host ex_mismatch_provider 3 = Inl IndexError"
  by code_simp

text \<open>
  C2, amended. After a successful \<^verbatim>\<open>update()\<close>, for every logical index \<open>k\<close>
  with \<open>0 \<le> k < len(valid_indices)\<close>, \<^verbatim>\<open>get_child_at_index(k)\<close> computes the
  element address \<open>element_base + valid_indices[k] * pair_size\<close> in the old layout and
  \<open>element_base - (valid_indices[k] + 1) * pair_size\<close> in the new layout, where the
  layout is new exactly when the inner table has no \<^verbatim>\<open>data\<close> field. When that
  address fits \<^verbatim>\<open>lldb::addr_t\<close> the map provider returns the pair at it; when it
  does not, the call raises \<^verbatim>\<open>OverflowError\<close>.
\<close>

theorem element_address_formula:
  "hashmap_update h cls valobj sv = Inr self \<Longrightarrow>
   0 \<le> k \<Longrightarrow> k < int (length (hm_valid_indices self)) \<Longrightarrow>
   hm_new_layout self = (\<not> IsValid (GetChildMemberWithName h (inner_table h cls valobj) ''data''))
   \<and> element_address h self k =
       Inr (if hm_new_layout self
            then element_base h self - (hm_valid_indices self ! nat k + 1) * hm_pair_type_size self
            else element_base h self + hm_valid_indices self ! nat k * hm_pair_type_size self)
   \<and> (element_address h self k = Inr a \<longrightarrow> fits_addr_t a \<longrightarrow> hm_show_values self \<longrightarrow>
        hashmap_get_child_at_index h self k = Inr (raw_pair self k a))
   \<and> (element_address h self k = Inr a \<longrightarrow> \<not> fits_addr_t a \<longrightarrow>
        hashmap_get_child_at_index h self k = Inl OverflowError)"
proof -
  assume u: "hashmap_update h cls valobj sv = Inr self"
    and k: "0 \<le> k" "k < int (length (hm_valid_indices self))"
  have l: "hm_new_layout self
      = (\<not> IsValid (GetChildMemberWithName h (inner_table h cls valobj) ''data''))"
    using u by (rule update_fields)
  have a: "element_address h self k =
       Inr (if hm_new_layout self
            then element_base h self - (hm_valid_indices self ! nat k + 1) * hm_pair_type_size self
            else element_base h self + hm_valid_indices self ! nat k * hm_pair_type_size self)"
    using k by (simp add: element_address_def getitem_in_range element_base_def Let_def algebra_simps)
  have p: "element_address h self k = Inr a \<longrightarrow> fits_addr_t a \<longrightarrow> hm_show_values self \<longrightarrow>
        hashmap_get_child_at_index h self k = Inr (raw_pair self k a)"
    by (simp add: child_at_result)
  have q: "element_address h self k = Inr a \<longrightarrow> \<not> fits_addr_t a \<longrightarrow>
        hashmap_get_child_at_index h self k = Inl OverflowError"
    by (simp add: child_at_result)
  from l a p q show ?thesis by blast
qed

text \<open>
  C2, amended, at the boundary slots 0 and \<open>capacity - 1 = 7\<close> of the concrete table, in
  the new layout (element base \<open>0x2000\<close>) and in the old one (element base
  \<open>0x3000\<close>).
\<close>

theorem element_address_formula_witness:
  "hashmap_update ex_host StdHashMapSyntheticProvider (ex_map (Some 7) 0x2000 False 3) True
     = Inr ex_new_provider
   \<and> hm_new_layout ex_new_provider \<and> hm_valid_indices ex_new_provider = [0, 2, 7]
   \<and> element_base ex_host ex_new_provider = 0x2000
   \<and> element_address ex_host ex_new_provider 0 = Inr (0x2000 - (0 + 1) * 16)
   \<and> element_address ex_host ex_new_provider 2 = Inr (0x2000 - (7 + 1) * 16)
   \<and> fits_addr_t (0x2000 - (7 + 1) * 16)
   \<and> hashmap_get_child_at_index ex_host ex_new_provider 2
       = Inr (raw_pair ex_new_provider 2 (0x2000 - (7 + 1) * 16))
   \<and> hashmap_update ex_host StdHashMapSyntheticProvider (ex_map (Some 7) 0x2000 True 3) True
     = Inr ex_old_provider
   \<and> \<not> hm_new_layout ex_old_provider \<and> hm_valid_indices ex_old_provider = [0, 2, 7]
   \<and> element_base ex_host ex_old_provider = 0x3000
   \<and> element_address ex_host ex_old_provider 0 = Inr (0x3000 + 0 * 16)
   \<and> element_address ex_host ex_old_provider 2 = Inr (0x3000 + 7 * 16)"
proof -
  have n: "hm_new_layout ex_new_provider" "hm_valid_indices ex_new_provider = [0, 2, 7]"
    "hm_pair_type_size ex_new_provider = 16" "hm_show_values ex_new_provider"
    by (simp_all add: ex_new_provider_def)
  have o: "\<not> hm_new_layout ex_old_provider" "hm_valid_indices ex_old_provider = [0, 2, 7]"
    "hm_pair_type_size ex_old_provider = 16"
    by (simp_all add: ex_old_provider_def)
  have bn: "element_base ex_host ex_new_provider = 0x2000" by code_simp
  have bo: "element_base ex_host ex_old_provider = 0x3000" by code_simp
  have f: "fits_addr_t (0x2000 - (7 + 1) * 16)" by (simp add: fits_addr_t_def)
  have n0: "element_address ex_host ex_new_provider 0 = Inr (0x2000 - (0 + 1) * 16)"
    using element_address_formula [OF ex_new_update, where k = 0] by (simp add: n bn)
  have n2: "element_address ex_host ex_new_provider 2 = Inr (0x2000 - (7 + 1) * 16)"
    using element_address_formula [OF ex_new_update, where k = 2] by (simp add: n bn)
  have c2: "hashmap_get_child_at_index ex_host ex_new_provider 2
       = Inr (raw_pair ex_new_provider 2 (0x2000 - (7 + 1) * 16))"
    using element_address_formula [OF ex_new_update, where k = 2 and a = "0x2000 - (7 + 1) * 16"]
      n2 f n(4)
    by (simp add: n)
  have o0: "element_address ex_host ex_old_provider 0 = Inr (0x3000 + 0 * 16)"
    using element_address_formula [OF ex_old_update, where k = 0] by (simp add: o bo)
  have o2: "element_address ex_host ex_old_provider 2 = Inr (0x3000 + 7 * 16)"
    using element_address_formula [OF ex_old_update, where k = 2] by (simp add: o bo)
  from ex_new_update n(1,2) bn n0 n2 f c2 ex_old_update o(1,2) bo o0 o2 show ?thesis
    by blast
qed

text \<open>
  C3, as stated, fails. A slice of length 3 asked for child 7 answers a valid value at
  \<open>data_start + 7 * element_size\<close>, with no error; the hash-table provider with three
  children asked for child \<open>-1\<close> answers the last valid slot, with no error.
\<close>

theorem out_of_range_counterexample:
  "slice_num_children (slice_update ex_host ex_slice) = 3
   \<and> slice_get_child_at_index ex_host (slice_update ex_host ex_slice) 7 =
       Inr (ValueFromAddress (HostValue (Node ''data_ptr'' (PointerType u32_t) 0x1000 [] []))
              ''[7]'' (0x1000 + 7 * 4) u32_t)
   \<and> IsValid (ValueFromAddress (HostValue (Node ''data_ptr'' (PointerType u32_t) 0x1000 [] []))
              ''[7]'' (0x1000 + 7 * 4) u32_t)
   \<and> hashmap_num_children ex_new_provider = 3
   \<and> hashmap_get_child_at_index ex_host ex_new_provider (- 1) =
       Inr (ValueFromAddress (hm_data_ptr ex_new_provider) ''[-1]'' (0x2000 - (7 + 1) * 16) pair_t)"
  by code_simp

text \<open>
  C3, amended. \<^verbatim>\<open>get_child_at_index(k)\<close> of the hash-table provider raises
  \<^verbatim>\<open>IndexError\<close>, before any address is computed, exactly when
  \<open>k \<ge> len(valid_indices)\<close> or \<open>k < - len(valid_indices)\<close>. The slice and vector
  providers check no range and never raise \<^verbatim>\<open>IndexError\<close>: for every integer
  \<open>i\<close> they compute \<open>data_start + i * element_size\<close> and hand it to
  \<^verbatim>\<open>CreateValueFromAddress\<close>, which answers the value at that address when it fits
  \<^verbatim>\<open>lldb::addr_t\<close> and raises \<^verbatim>\<open>OverflowError\<close> when it does not.
\<close>

theorem out_of_range_behaviour:
  "(hashmap_get_child_at_index h self k = Inl IndexError \<longleftrightarrow>
      (int (length (hm_valid_indices self)) \<le> k \<or> k < - int (length (hm_valid_indices self))))
   \<and> (element_address h self k = Inl IndexError \<longleftrightarrow>
      (int (length (hm_valid_indices self)) \<le> k \<or> k < - int (length (hm_valid_indices self))))
   \<and> slice_get_child_at_index h s i =
       (if fits_addr_t (GetValueAsUnsigned h (slice_data_ptr s) + i * slice_element_type_size s)
        then Inr (ValueFromAddress (slice_data_ptr s) (child_name i)
                    (GetValueAsUnsigned h (slice_data_ptr s) + i * slice_element_type_size s)
                    (slice_element_type s))
        else Inl OverflowError)
   \<and> vec_get_child_at_index h v i =
       (if fits_addr_t (GetValueAsUnsigned h (vec_data_ptr v) + i * vec_element_type_size v)
        then Inr (ValueFromAddress (vec_data_ptr v) (child_name i)
                    (GetValueAsUnsigned h (vec_data_ptr v) + i * vec_element_type_size v)
                    (vec_element_type v))
        else Inl OverflowError)"
proof -
  have a: "element_address h self k = Inl IndexError \<longleftrightarrow>
      (int (length (hm_valid_indices self)) \<le> k \<or> k < - int (length (hm_valid_indices self)))"
    by (rule element_address_error_iff)
  have b: "hashmap_get_child_at_index h self k = Inl IndexError \<longleftrightarrow>
      (int (length (hm_valid_indices self)) \<le> k \<or> k < - int (length (hm_valid_indices self)))"
    using a by (simp add: child_at_index_error_iff)
  have c: "slice_get_child_at_index h s i =
       (if fits_addr_t (GetValueAsUnsigned h (slice_data_ptr s) + i * slice_element_type_size s)
        then Inr (ValueFromAddress (slice_data_ptr s) (child_name i)
                    (GetValueAsUnsigned h (slice_data_ptr s) + i * slice_element_type_size s)
                    (slice_element_type s))
        else Inl OverflowError)"
    by (simp add: slice_get_child_at_index_def CreateValueFromAddress_def Let_def)
  have d: "vec_get_child_at_index h v i =
       (if fits_addr_t (GetValueAsUnsigned h (vec_data_ptr v) + i * vec_element_type_size v)
        then Inr (ValueFromAddress (vec_data_ptr v) (child_name i)
                    (GetValueAsUnsigned h (vec_data_ptr v) + i * vec_element_type_size v)
                    (vec_element_type v))
        else Inl OverflowError)"
    by (simp add: vec_get_child_at_index_def CreateValueFromAddress_def Let_def)
  from a b c d show ?thesis by blast
qed

text \<open>
  C3, amended, on the concrete table and slice: the slice at \<open>0x1000\<close> answers child
  \<open>-2\<close> at \<open>0x1000 - 8\<close> and raises \<^verbatim>\<open>OverflowError\<close> for child
  \<open>-2000\<close>, whose address is negative.
\<close>

theorem out_of_range_behaviour_witness:
  "hashmap_get_child_at_index ex_host ex_new_provider 3 = Inl IndexError
   \<and> hashmap_get_child_at_index ex_host ex_new_provider (- 4) = Inl IndexError
   \<and> hashmap_get_child_at_index ex_host ex_new_provider (- 3) \<noteq> Inl IndexError
   \<and> slice_get_child_at_index ex_host (slice_update ex_host ex_slice) (- 2) =
       Inr (ValueFromAddress (HostValue (Node ''data_ptr'' (PointerType u32_t) 0x1000 [] []))
              ''[-2]'' (0x1000 - 8) u32_t)
   \<and> slice_get_child_at_index ex_host (slice_update ex_host ex_slice) (- 2000) = Inl OverflowError"
proof -
  have l: "int (length (hm_valid_indices ex_new_provider)) = 3"
    by (simp add: ex_new_provider_def)
  have p: "slice_data_ptr (slice_update ex_host ex_slice)
             = HostValue (Node ''data_ptr'' (PointerType u32_t) 0x1000 [] [])"
    "slice_element_type (slice_update ex_host ex_slice) = u32_t"
    "slice_element_type_size (slice_update ex_host ex_slice) = 4"
    "GetValueAsUnsigned ex_host (HostValue (Node ''data_ptr'' (PointerType u32_t) 0x1000 [] []))
       = 0x1000"
    "child_name (- 2) = ''[-2]''"
    by code_simp+
  have 1: "hashmap_get_child_at_index ex_host ex_new_provider 3 = Inl IndexError"
    using out_of_range_behaviour [where h = ex_host and self = ex_new_provider and k = 3]
    by (simp add: l)
  have 2: "hashmap_get_child_at_index ex_host ex_new_provider (- 4) = Inl IndexError"
    using out_of_range_behaviour [where h = ex_host and self = ex_new_provider and k = "- 4"]
    by (simp add: l)
  have 3: "hashmap_get_child_at_index ex_host ex_new_provider (- 3) \<noteq> Inl IndexError"
    using out_of_range_behaviour [where h = ex_host and self = ex_new_provider and k = "- 3"]
    by (simp add: l)
  have 4: "slice_get_child_at_index ex_host (slice_update ex_host ex_slice) (- 2) =
       Inr (ValueFromAddress (HostValue (Node ''data_ptr'' (PointerType u32_t) 0x1000 [] []))
              ''[-2]'' (0x1000 - 8) u32_t)"
    using out_of_range_behaviour [where h = ex_host and s = "slice_update ex_host ex_slice"
        and i = "- 2"]
    by (simp add: p fits_addr_t_def)
  have 5: "slice_get_child_at_index ex_host (slice_update ex_host ex_slice) (- 2000)
             = Inl OverflowError"
    using out_of_range_behaviour [where h = ex_host and s = "slice_update ex_host ex_slice"
        and i = "- 2000"]
    by (simp add: p fits_addr_t_def)
  from 1 2 3 4 5 show ?thesis by blast
qed

text \<open>
  C4, as stated, fails. A table whose header says \<^verbatim>\<open>items = 5\<close> while three
  control bytes mark an occupied slot: \<^verbatim>\<open>update()\<close> returns, the child count is 5
  and three slots are valid.
\<close>

theorem count_mismatch_counterexample:
  "map_sum id hashmap_num_children
     (hashmap_update ex_host StdHashMapSyntheticProvider (ex_map (Some 7) 0x2000 False 5) True) = Inr 5
   \<and> map_sum id hm_valid_indices
     (hashmap_update ex_host StdHashMapSyntheticProvider (ex_map (Some 7) 0x2000 False 5) True)
       = Inr [0, 2, 7]"
  by code_simp

text \<open>
  C4, amended. Whenever \<^verbatim>\<open>update()\<close> returns, \<^verbatim>\<open>num_children()\<close> is the
  header's \<^verbatim>\<open>items\<close>. \<^verbatim>\<open>update()\<close> does not compare it with the scanned
  slots: whenever the table's type has its template arguments and the scanned addresses fit
  \<^verbatim>\<open>lldb::addr_t\<close>, it returns, whatever the header's count and the control bytes
  are.
\<close>

theorem count_is_header_items:
  "(hashmap_update h cls valobj sv = Inr self \<longrightarrow>
      hashmap_num_children self = items_count h cls valobj)
   \<and> (template_args (GetType (table h cls valobj)) \<noteq> None \<longrightarrow> scan_fits h cls valobj \<longrightarrow>
       (\<exists>st. hashmap_update h cls valobj sv = Inr st
          \<and> hashmap_num_children st = items_count h cls valobj
          \<and> hm_valid_indices st =
              filter (\<lambda>i. control_byte h cls valobj i AND 128 = 0)
                (py_range (capacity h cls valobj))))"
proof -
  have a: "hashmap_update h cls valobj sv = Inr self \<longrightarrow>
      hashmap_num_children self = items_count h cls valobj"
    using update_fields(2) [of h cls valobj sv self] by (simp add: hashmap_num_children_def)
  have b: "\<exists>st. hashmap_update h cls valobj sv = Inr st
          \<and> hashmap_num_children st = items_count h cls valobj
          \<and> hm_valid_indices st =
              filter (\<lambda>i. control_byte h cls valobj i AND 128 = 0)
                (py_range (capacity h cls valobj))"
    if t: "template_args (GetType (table h cls valobj)) \<noteq> None" and f: "scan_fits h cls valobj"
  proof -
    from update_succeeds [OF t f] obtain st where u: "hashmap_update h cls valobj sv = Inr st"
      by blast
    from update_fields(1,2) [OF u] u show ?thesis
      by (auto simp: hashmap_num_children_def)
  qed
  from a b show ?thesis by blast
qed

text \<open>C4, amended, on the table whose header says 5 while three slots are valid.\<close>

theorem count_is_header_items_witness:
  "template_args (GetType (table ex_host StdHashMapSyntheticProvider
       (ex_map (Some 7) 0x2000 False 5))) \<noteq> None
   \<and> scan_fits ex_host StdHashMapSyntheticProvider (ex_map (Some 7) 0x2000 False 5)
   \<and> hashmap_update ex_host StdHashMapSyntheticProvider (ex_map (Some 7) 0x2000 False 5) True
     = Inr ex_mismatch_provider
   \<and> items_count ex_host StdHashMapSyntheticProvider (ex_map (Some 7) 0x2000 False 5) = 5
   \<and> hashmap_num_children ex_mismatch_provider = 5
   \<and> hm_valid_indices ex_mismatch_provider = [0, 2, 7]"
proof -
  have t: "template_args (GetType (table ex_host StdHashMapSyntheticProvider
       (ex_map (Some 7) 0x2000 False 5))) \<noteq> None"
    by code_simp
  have f: "scan_fits ex_host StdHashMapSyntheticProvider (ex_map (Some 7) 0x2000 False 5)"
    by code_simp
  have i: "items_count ex_host StdHashMapSyntheticProvider (ex_map (Some 7) 0x2000 False 5) = 5"
    by code_simp
  have v: "hm_valid_indices ex_mismatch_provider = [0, 2, 7]"
    by (simp add: ex_mismatch_provider_def)
  note w = count_is_header_items [where h = ex_host and cls = StdHashMapSyntheticProvider
      and valobj = "ex_map (Some 7) 0x2000 False 5" and sv = True and self = ex_mismatch_provider]
  from w ex_mismatch_update i have n: "hashmap_num_children ex_mismatch_provider = 5"
    by simp
  from t f ex_mismatch_update i n v show ?thesis by blast
qed

text \<open>
  C8. The set provider's \<^verbatim>\<open>get_child_at_index(k)\<close> does not return the pair at the
  element address: it returns a value made by the enclosing value
  (\<^verbatim>\<open>self.valobj.CreateValueFromData\<close>) from the data of the pair's first child, the
  key, with the key's type; nothing of the pair's second child enters it. The map provider
  returns the pair itself. (In both, an element address that does not fit
  \<^verbatim>\<open>lldb::addr_t\<close> makes the call raise \<^verbatim>\<open>OverflowError\<close> before any value
  is made.)
\<close>

theorem set_child_is_key:
  "StdHashSetSyntheticProvider_init h valobj = Inr self \<Longrightarrow>
   element_address h self k = Inr a \<Longrightarrow>
   hashmap_get_child_at_index h self k =
     (if fits_addr_t a
      then Inr (CreateValueFromData valobj (child_name k)
                  (GetData h (GetChildAtIndex h (raw_pair self k a) 0))
                  (GetType (GetChildAtIndex h (raw_pair self k a) 0)))
      else Inl OverflowError)
   \<and> hashmap_get_child_at_index h self k \<noteq> Inr (raw_pair self k a)
   \<and> (StdHashMapSyntheticProvider_init h valobj' True = Inr self' \<longrightarrow>
      element_address h self' k' = Inr a' \<longrightarrow>
      hashmap_get_child_at_index h self' k' =
        (if fits_addr_t a' then Inr (raw_pair self' k' a') else Inl OverflowError))"
proof -
  assume u: "StdHashSetSyntheticProvider_init h valobj = Inr self"
    and a: "element_address h self k = Inr a"
  from u have f: "hm_show_values self = False" "hm_valobj self = valobj"
    using update_fields(3,4) [of h StdHashSetSyntheticProvider valobj False self]
    by (simp_all add: StdHashSetSyntheticProvider_init_def)
  have s: "hashmap_get_child_at_index h self k =
     (if fits_addr_t a
      then Inr (CreateValueFromData valobj (child_name k)
                  (GetData h (GetChildAtIndex h (raw_pair self k a) 0))
                  (GetType (GetChildAtIndex h (raw_pair self k a) 0)))
      else Inl OverflowError)"
    using a f by (simp add: child_at_result)
  have m: "StdHashMapSyntheticProvider_init h valobj' True = Inr self' \<longrightarrow>
      element_address h self' k' = Inr a' \<longrightarrow>
      hashmap_get_child_at_index h self' k' =
        (if fits_addr_t a' then Inr (raw_pair self' k' a') else Inl OverflowError)"
    using update_fields(4) [of h StdHashMapSyntheticProvider valobj' True self']
    by (simp add: StdHashMapSyntheticProvider_init_def child_at_result)
  from s have n: "hashmap_get_child_at_index h self k \<noteq> Inr (raw_pair self k a)"
    by (simp add: raw_pair_def)
  from s m n show ?thesis by blast
qed

text \<open>
  C8 on the concrete set and map: child 0 lies at \<open>0x2000 - 16 = 8176\<close>; the set
  answers the key's byte, the map the pair.
\<close>

theorem set_child_is_key_witness:
  "StdHashSetSyntheticProvider_init ex_host ex_set = Inr ex_set_provider
   \<and> element_address ex_host ex_set_provider 0 = Inr 8176
   \<and> fits_addr_t 8176
   \<and> hashmap_get_child_at_index ex_host ex_set_provider 0
       = Inr (CreateValueFromData ex_set ''[0]'' [0xF0] u32_t)
   \<and> StdHashMapSyntheticProvider_init ex_host (ex_map (Some 7) 0x2000 False 3) True
       = Inr ex_new_provider
   \<and> element_address ex_host ex_new_provider 0 = Inr 8176
   \<and> hashmap_get_child_at_index ex_host ex_new_provider 0
       = Inr (ValueFromAddress (hm_data_ptr ex_new_provider) ''[0]'' 8176 pair_t)"
proof -
  have a: "element_address ex_host ex_set_provider 0 = Inr 8176" by code_simp
  have b: "element_address ex_host ex_new_provider 0 = Inr 8176" by code_simp
  have f: "fits_addr_t 8176" by (simp add: fits_addr_t_def)
  have d: "GetData ex_host (GetChildAtIndex ex_host (raw_pair ex_set_provider 0 8176) 0) = [0xF0]"
    by code_simp
  have t: "GetType (GetChildAtIndex ex_host (raw_pair ex_set_provider 0 8176) 0) = u32_t"
    by code_simp
  have n: "child_name 0 = ''[0]''" by code_simp
  have r: "raw_pair ex_new_provider 0 8176
       = ValueFromAddress (hm_data_ptr ex_new_provider) ''[0]'' 8176 pair_t"
    by (simp add: raw_pair_def n ex_new_provider_def)
  note w = set_child_is_key [OF ex_set_update a, where valobj' = "ex_map (Some 7) 0x2000 False 3"
      and self' = ex_new_provider and k' = 0 and a' = 8176]
  from w f have 1: "hashmap_get_child_at_index ex_host ex_set_provider 0
       = Inr (CreateValueFromData ex_set ''[0]'' [0xF0] u32_t)"
    unfolding d t n by simp
  from w ex_map_init b f have 2: "hashmap_get_child_at_index ex_host ex_new_provider 0
       = Inr (ValueFromAddress (hm_data_ptr ex_new_provider) ''[0]'' 8176 pair_t)"
    unfolding r by simp
  from ex_set_update a f 1 ex_map_init b 2 show ?thesis by blast
qed

text \<open>
  C9, as stated, fails. For a table whose inner table has no \<^verbatim>\<open>bucket_mask\<close>
  field, \<^verbatim>\<open>update()\<close> returns, and the child count is the header's 3, not 0.
\<close>

theorem missing_bucket_mask_counterexample:
  "\<not> IsValid (GetChildMemberWithName ex_host
        (inner_table ex_host StdHashMapSyntheticProvider (ex_map None 0x2000 False 3)) ''bucket_mask'')
   \<and> map_sum id hashmap_num_children
        (hashmap_update ex_host StdHashMapSyntheticProvider (ex_map None 0x2000 False 3) True) = Inr 3
   \<and> map_sum id hm_valid_indices
        (hashmap_update ex_host StdHashMapSyntheticProvider (ex_map None 0x2000 False 3) True) = Inr [0]"
  by code_simp

text \<open>
  C9, amended. When the inner table has no \<^verbatim>\<open>bucket_mask\<close> field and the table's
  type has its template arguments, \<^verbatim>\<open>update()\<close> returns: the absent field reads as
  0, the capacity is 1, slot 0 alone is scanned, and \<^verbatim>\<open>num_children()\<close> is the
  header's \<^verbatim>\<open>items\<close>.
\<close>

theorem missing_bucket_mask:
  "\<not> IsValid (GetChildMemberWithName h (inner_table h cls valobj) ''bucket_mask'') \<Longrightarrow>
   template_args (GetType (table h cls valobj)) \<noteq> None \<Longrightarrow>
   \<exists>self. hashmap_update h cls valobj sv = Inr self
     \<and> hashmap_num_children self = items_count h cls valobj
     \<and> capacity h cls valobj = 1
     \<and> hm_valid_indices self = (if control_byte h cls valobj 0 AND 128 = 0 then [0] else [])"
proof -
  assume m: "\<not> IsValid (GetChildMemberWithName h (inner_table h cls valobj) ''bucket_mask'')"
    and t: "template_args (GetType (table h cls valobj)) \<noteq> None"
  from m have b: "bucket_mask h cls valobj = 0"
    by (simp add: bucket_mask_def GetValueAsUnsigned_def view_invalid)
  then have c: "capacity h cls valobj = 1"
    by (simp add: capacity_def)
  have f: "scan_fits h cls valobj"
    using GetValueAsUnsigned_range [of h "control_pointer h cls valobj"]
    by (simp add: scan_fits_def b control_base_def)
  from t f obtain self where u: "hashmap_update h cls valobj sv = Inr self"
    using update_succeeds by blast
  have "hm_valid_indices self = (if control_byte h cls valobj 0 AND 128 = 0 then [0] else [])"
    using update_fields(1) [OF u] by (simp add: c py_range_one)
  moreover have "hashmap_num_children self = items_count h cls valobj"
    using update_fields(2) [OF u] by (simp add: hashmap_num_children_def)
  ultimately show ?thesis using u c by blast
qed

text \<open>C9, amended, on the concrete table without \<^verbatim>\<open>bucket_mask\<close>.\<close>

theorem missing_bucket_mask_witness:
  "\<not> IsValid (GetChildMemberWithName ex_host
        (inner_table ex_host StdHashMapSyntheticProvider (ex_map None 0x2000 False 3)) ''bucket_mask'')
   \<and> template_args (GetType (table ex_host StdHashMapSyntheticProvider (ex_map None 0x2000 False 3)))
       \<noteq> None
   \<and> items_count ex_host StdHashMapSyntheticProvider (ex_map None 0x2000 False 3) = 3
   \<and> (\<exists>self. hashmap_update ex_host StdHashMapSyntheticProvider (ex_map None 0x2000 False 3) True
                  = Inr self
        \<and> hashmap_num_children self = 3 \<and> hm_valid_indices self = [0])"
proof -
  have m: "\<not> IsValid (GetChildMemberWithName ex_host
        (inner_table ex_host StdHashMapSyntheticProvider (ex_map None 0x2000 False 3)) ''bucket_mask'')"
    by code_simp
  have t: "template_args (GetType (table ex_host StdHashMapSyntheticProvider (ex_map None 0x2000 False 3)))
       \<noteq> None"
    by code_simp
  have i: "items_count ex_host StdHashMapSyntheticProvider (ex_map None 0x2000 False 3) = 3"
    by code_simp
  have b: "control_byte ex_host StdHashMapSyntheticProvider (ex_map None 0x2000 False 3) 0 = 0"
    by code_simp
  from missing_bucket_mask [OF m t, of True]
  have "\<exists>self. hashmap_update ex_host StdHashMapSyntheticProvider (ex_map None 0x2000 False 3) True
                  = Inr self
        \<and> hashmap_num_children self = 3
        \<and> capacity ex_host StdHashMapSyntheticProvider (ex_map None 0x2000 False 3) = 1
        \<and> hm_valid_indices self = [0]"
    unfolding i b by simp
  then have "\<exists>self. hashmap_update ex_host StdHashMapSyntheticProvider (ex_map None 0x2000 False 3) True
                  = Inr self
        \<and> hashmap_num_children self = 3 \<and> hm_valid_indices self = [0]"
    by blast
  with m t i show ?thesis by blast
qed

text \<open>
  C10. After every \<^verbatim>\<open>update()\<close> that returns, the capacity is
  \<open>bucket_mask + 1\<close> as an integer (no wrap-around: \<open>bucket_mask\<close> is below
  \<open>2^64\<close> and the sum may be \<open>2^64\<close>), hence at least 1; the scan ranges over
  \<^verbatim>\<open>range(capacity)\<close>, which is not empty and starts at slot 0, and slot 0 is valid
  exactly when its control byte has the high bit clear.
\<close>

theorem capacity_at_least_one:
  "hashmap_update h cls valobj sv = Inr self \<Longrightarrow>
   capacity h cls valobj = bucket_mask h cls valobj + 1
   \<and> 0 \<le> bucket_mask h cls valobj \<and> bucket_mask h cls valobj < 2 ^ 64
   \<and> 1 \<le> capacity h cls valobj
   \<and> hm_valid_indices self =
       filter (\<lambda>i. control_byte h cls valobj i AND 128 = 0) (py_range (capacity h cls valobj))
   \<and> py_range (capacity h cls valobj) \<noteq> [] \<and> hd (py_range (capacity h cls valobj)) = 0
   \<and> (0 \<in> set (hm_valid_indices self) \<longleftrightarrow> control_byte h cls valobj 0 AND 128 = 0)"
proof -
  assume u: "hashmap_update h cls valobj sv = Inr self"
  have r: "0 \<le> bucket_mask h cls valobj \<and> bucket_mask h cls valobj < 2 ^ 64"
    unfolding bucket_mask_def by (rule GetValueAsUnsigned_range)
  then have c: "1 \<le> capacity h cls valobj" by (simp add: capacity_def)
  have v: "hm_valid_indices self =
       filter (\<lambda>i. control_byte h cls valobj i AND 128 = 0) (py_range (capacity h cls valobj))"
    using u by (rule update_fields)
  from c have n: "0 < nat (capacity h cls valobj)" by simp
  then have p: "py_range (capacity h cls valobj) \<noteq> [] \<and> hd (py_range (capacity h cls valobj)) = 0"
    by (simp add: py_range_def hd_map upt_conv_Cons)
  have "0 \<in> set (hm_valid_indices self) \<longleftrightarrow> control_byte h cls valobj 0 AND 128 = 0"
    unfolding v using c by (auto simp: set_py_range)
  with r c v p show ?thesis by (simp add: capacity_def)
qed

text \<open>
  C10 on an empty table: \<^verbatim>\<open>bucket_mask = 0\<close>, one control byte \<open>0xFF\<close>;
  the scan visits slot 0 and finds no valid slot.
\<close>

theorem capacity_at_least_one_witness:
  "hashmap_update ex_host StdHashMapSyntheticProvider (ex_map (Some 0) 0x2001 False 0) True
     = Inr ex_empty_provider
   \<and> bucket_mask ex_host StdHashMapSyntheticProvider (ex_map (Some 0) 0x2001 False 0) = 0
   \<and> capacity ex_host StdHashMapSyntheticProvider (ex_map (Some 0) 0x2001 False 0) = 1
   \<and> py_range (capacity ex_host StdHashMapSyntheticProvider (ex_map (Some 0) 0x2001 False 0)) = [0]
   \<and> control_byte ex_host StdHashMapSyntheticProvider (ex_map (Some 0) 0x2001 False 0) 0 = 255
   \<and> hm_valid_indices ex_empty_provider = []"
proof -
  have b: "bucket_mask ex_host StdHashMapSyntheticProvider (ex_map (Some 0) 0x2001 False 0) = 0"
    by code_simp
  have c: "control_byte ex_host StdHashMapSyntheticProvider (ex_map (Some 0) 0x2001 False 0) 0 = 255"
    by code_simp
  note w = capacity_at_least_one [OF ex_empty_update]
  from w b have 1: "capacity ex_host StdHashMapSyntheticProvider (ex_map (Some 0) 0x2001 False 0) = 1"
    by simp
  have 2: "hm_valid_indices ex_empty_provider = []"
    by (simp add: ex_empty_provider_def)
  from ex_empty_update b 1 c 2 show ?thesis by (simp add: py_range_one)
qed

section \<open>Child names\<close>

text \<open>
  C5, as stated, fails. \<^verbatim>\<open>12\<close>, \<^verbatim>\<open>[[3]]\<close> and \<^verbatim>\<open>[7\<close> are not of the
  bracketed-decimal form, and \<^verbatim>\<open>get_child_index\<close> answers 12, 3 and 7.
\<close>

theorem child_index_counterexample:
  "\<not> bracketed_decimal ''12'' \<and> hashmap_get_child_index ''12'' = Inr 12
   \<and> \<not> bracketed_decimal ''[[3]]'' \<and> vec_get_child_index ''[[3]]'' = Inr 3
   \<and> \<not> bracketed_decimal ''[7'' \<and> slice_get_child_index ''[7'' = Inr 7"
  by code_simp

text \<open>
  C5, amended. \<^verbatim>\<open>get_child_index\<close> of each provider answers \<open>-1\<close>, not an index
  and not an error, for every name whose remainder, after every leading \<^verbatim>\<open>[\<close> and
  every trailing \<^verbatim>\<open>]\<close> is removed, is empty or has a character that
  \<^verbatim>\<open>str.isdigit()\<close> rejects. For every name whose remainder is a non-empty string of
  the decimal digits \<^verbatim>\<open>0\<close> to \<^verbatim>\<open>9\<close> it answers the number they denote, also
  when the name is not of the bracketed-decimal form.
\<close>

theorem child_index_not_found:
  "(\<not> isdigit (rstrip CHR '']'' (lstrip CHR ''['' name)) \<longrightarrow>
      hashmap_get_child_index name = Inr (- 1)
      \<and> vec_get_child_index name = Inr (- 1)
      \<and> slice_get_child_index name = Inr (- 1))
   \<and> (rstrip CHR '']'' (lstrip CHR ''['' name) \<noteq> []
        \<and> list_all is_decimal (rstrip CHR '']'' (lstrip CHR ''['' name)) \<longrightarrow>
      hashmap_get_child_index name = Inr (decimal_value (rstrip CHR '']'' (lstrip CHR ''['' name)))
      \<and> vec_get_child_index name = Inr (decimal_value (rstrip CHR '']'' (lstrip CHR ''['' name)))
      \<and> slice_get_child_index name = Inr (decimal_value (rstrip CHR '']'' (lstrip CHR ''['' name)))
      \<and> 0 \<le> decimal_value (rstrip CHR '']'' (lstrip CHR ''['' name)))"
proof -
  have a: "hashmap_get_child_index name = Inr (- 1)
      \<and> vec_get_child_index name = Inr (- 1)
      \<and> slice_get_child_index name = Inr (- 1)"
    if "\<not> isdigit (rstrip CHR '']'' (lstrip CHR ''['' name))"
    using that
    by (simp add: hashmap_get_child_index_def vec_get_child_index_def slice_get_child_index_def
        Let_def)
  have b: "hashmap_get_child_index name = Inr (decimal_value (rstrip CHR '']'' (lstrip CHR ''['' name)))
      \<and> vec_get_child_index name = Inr (decimal_value (rstrip CHR '']'' (lstrip CHR ''['' name)))
      \<and> slice_get_child_index name = Inr (decimal_value (rstrip CHR '']'' (lstrip CHR ''['' name)))
      \<and> 0 \<le> decimal_value (rstrip CHR '']'' (lstrip CHR ''['' name))"
    if n: "rstrip CHR '']'' (lstrip CHR ''['' name) \<noteq> []"
      and d: "list_all is_decimal (rstrip CHR '']'' (lstrip CHR ''['' name))"
  proof -
    from n d have i: "isdigit (rstrip CHR '']'' (lstrip CHR ''['' name))"
      by (simp add: isdigit_def decimal_imp_digit)
    from n d have p: "py_int (rstrip CHR '']'' (lstrip CHR ''['' name))
        = Inr (decimal_value (rstrip CHR '']'' (lstrip CHR ''['' name)))"
      by (simp add: py_int_def decimal_value_def)
    have "0 \<le> decimal_value (rstrip CHR '']'' (lstrip CHR ''['' name))"
      unfolding decimal_value_def using d by (rule decimal_value_nonneg) simp
    with i p show ?thesis
      by (simp add: hashmap_get_child_index_def vec_get_child_index_def
          slice_get_child_index_def Let_def)
  qed
  from a b show ?thesis by blast
qed

text \<open>
  C5, amended, on \<^verbatim>\<open>[x]\<close> and \<^verbatim>\<open>[]\<close>, which are not found, and on
  \<^verbatim>\<open>12\<close> and \<^verbatim>\<open>[[3]]\<close>, which are.
\<close>

theorem child_index_not_found_witness:
  "\<not> isdigit (rstrip CHR '']'' (lstrip CHR ''['' ''[x]''))
   \<and> hashmap_get_child_index ''[x]'' = Inr (- 1)
   \<and> \<not> isdigit (rstrip CHR '']'' (lstrip CHR ''['' ''[]''))
   \<and> vec_get_child_index ''[]'' = Inr (- 1)
   \<and> rstrip CHR '']'' (lstrip CHR ''['' ''12'') = ''12'' \<and> list_all is_decimal ''12''
   \<and> slice_get_child_index ''12'' = Inr 12
   \<and> rstrip CHR '']'' (lstrip CHR ''['' ''[[3]]'') = ''3'' \<and> list_all is_decimal ''3''
   \<and> hashmap_get_child_index ''[[3]]'' = Inr 3"
proof -
  have a: "\<not> isdigit (rstrip CHR '']'' (lstrip CHR ''['' ''[x]''))" by code_simp
  have b: "\<not> isdigit (rstrip CHR '']'' (lstrip CHR ''['' ''[]''))" by code_simp
  have c: "rstrip CHR '']'' (lstrip CHR ''['' ''12'') = ''12''" by code_simp
  have d: "rstrip CHR '']'' (lstrip CHR ''['' ''[[3]]'') = ''3''" by code_simp
  have e: "list_all is_decimal ''12''" "list_all is_decimal ''3''" by code_simp+
  have v: "decimal_value ''12'' = 12" "decimal_value ''3'' = 3" by code_simp+
  from child_index_not_found [where name = "''[x]''"] a
  have 1: "hashmap_get_child_index ''[x]'' = Inr (- 1)" by blast
  from child_index_not_found [where name = "''[]''"] b
  have 2: "vec_get_child_index ''[]'' = Inr (- 1)" by blast
  from child_index_not_found [where name = "''12''"] e(1)
  have 3: "slice_get_child_index ''12'' = Inr 12" unfolding c v by simp
  from child_index_not_found [where name = "''[[3]]''"] e(2)
  have 4: "hashmap_get_child_index ''[[3]]'' = Inr 3" unfolding d v by simp
  from a 1 b 2 c e(1) 3 d e(2) 4 show ?thesis by blast
qed

text \<open>
  C6. For every integer \<open>k \<ge> 0\<close>, the name \<^verbatim>\<open>"[%s]" % k\<close> is an opening
  bracket, the decimal digits of \<open>k\<close> and a closing bracket; it is the name of the child
  that \<^verbatim>\<open>get_child_at_index(k)\<close> of each provider creates, whenever it returns one,
  and \<^verbatim>\<open>get_child_index\<close> of each provider maps it back to \<open>k\<close>.
\<close>

theorem child_name_round_trip:
  "0 \<le> k \<Longrightarrow>
   child_name k = ''['' @ py_str k @ '']''
   \<and> list_all is_decimal (py_str k) \<and> decimal_value (py_str k) = k
   \<and> (slice_get_child_at_index h s k = Inr cs \<longrightarrow> name_of cs = child_name k)
   \<and> (vec_get_child_at_index h v k = Inr cv \<longrightarrow> name_of cv = child_name k)
   \<and> (hashmap_get_child_at_index h m k = Inr c \<longrightarrow> name_of c = child_name k)
   \<and> slice_get_child_index (child_name k) = Inr k
   \<and> vec_get_child_index (child_name k) = Inr k
   \<and> hashmap_get_child_index (child_name k) = Inr k"
proof -
  assume k: "0 \<le> k"
  then have p: "py_str k = digits_of (nat k)" by (simp add: py_str_def)
  have "child_name k = ''['' @ py_str k @ '']''" by (simp add: child_name_def)
  moreover have "list_all is_decimal (py_str k)" by (simp add: p digits_of_decimal)
  moreover have "decimal_value (py_str k) = k"
    using k by (simp add: p decimal_value_def digits_of_value)
  moreover have "slice_get_child_at_index h s k = Inr cs \<longrightarrow> name_of cs = child_name k"
    by (auto simp: slice_get_child_at_index_def Let_def split: sum.splits dest: created_name)
  moreover have "vec_get_child_at_index h v k = Inr cv \<longrightarrow> name_of cv = child_name k"
    by (auto simp: vec_get_child_at_index_def Let_def split: sum.splits dest: created_name)
  moreover have "hashmap_get_child_at_index h m k = Inr c \<longrightarrow> name_of c = child_name k"
    using child_at_name [of h m k c] by simp
  moreover have "slice_get_child_index (child_name k) = Inr k"
    using index_of_child_name [OF k] by (simp add: slice_get_child_index_def)
  moreover have "vec_get_child_index (child_name k) = Inr k"
    using index_of_child_name [OF k] by (simp add: vec_get_child_index_def)
  moreover have "hashmap_get_child_index (child_name k) = Inr k"
    using index_of_child_name [OF k] by (simp add: hashmap_get_child_index_def)
  ultimately show ?thesis by blast
qed

text \<open>C6 at \<open>k = 2\<close>, on the concrete set and slice.\<close>

theorem child_name_round_trip_witness:
  "(0::int) \<le> 2 \<and> child_name 2 = ''[2]''
   \<and> hashmap_get_child_at_index ex_host ex_set_provider 2 =
        Inr (CreateValueFromData ex_set ''[2]'' [0x80] u32_t)
   \<and> name_of (CreateValueFromData ex_set ''[2]'' [0x80] u32_t) = ''[2]''
   \<and> slice_get_child_at_index ex_host (slice_update ex_host ex_slice) 2 =
        Inr (ValueFromAddress (HostValue (Node ''data_ptr'' (PointerType u32_t) 0x1000 [] []))
               ''[2]'' 0x1008 u32_t)
   \<and> name_of (ValueFromAddress (HostValue (Node ''data_ptr'' (PointerType u32_t) 0x1000 [] []))
               ''[2]'' 0x1008 u32_t) = ''[2]''
   \<and> hashmap_get_child_index ''[2]'' = Inr 2"
proof -
  have k: "(0::int) \<le> 2" by simp
  have p: "py_str 2 = ''2''" by code_simp
  have c: "hashmap_get_child_at_index ex_host ex_set_provider 2 =
        Inr (CreateValueFromData ex_set ''[2]'' [0x80] u32_t)" by code_simp
  have e: "slice_get_child_at_index ex_host (slice_update ex_host ex_slice) 2 =
        Inr (ValueFromAddress (HostValue (Node ''data_ptr'' (PointerType u32_t) 0x1000 [] []))
               ''[2]'' 0x1008 u32_t)" by code_simp
  note t = child_name_round_trip [OF k, where h = ex_host and s = "slice_update ex_host ex_slice"
        and v = "vec_update ex_host (ex_vec (ex_raw_pointer ''pointer''))"
        and m = ex_set_provider and c = "CreateValueFromData ex_set ''[2]'' [0x80] u32_t"
        and cs = "ValueFromAddress (HostValue (Node ''data_ptr'' (PointerType u32_t) 0x1000 [] []))
               ''[2]'' 0x1008 u32_t"]
  from t have n: "child_name 2 = ''[2]''" by (simp add: p)
  from t c have a: "name_of (CreateValueFromData ex_set ''[2]'' [0x80] u32_t) = ''[2]''"
    unfolding n by blast
  from t e have b: "name_of (ValueFromAddress
               (HostValue (Node ''data_ptr'' (PointerType u32_t) 0x1000 [] []))
               ''[2]'' 0x1008 u32_t) = ''[2]''"
    unfolding n by blast
  from t have d: "hashmap_get_child_index ''[2]'' = Inr 2"
    unfolding n by blast
  from k n c a e b d show ?thesis by blast
qed

section \<open>The vector provider's pointer\<close>

text \<open>
  C7, as stated, fails. When the member \<^verbatim>\<open>pointer\<close> is a raw pointer, the data
  pointer is that pointer, at \<open>0x1000\<close>. When it is a wrapper around a wrapper around
  the same raw pointer, \<^verbatim>\<open>unwrap_unique_or_non_null\<close> descends one level only:
  the data pointer is the inner wrapper, which is no pointer and reads as 0.
\<close>

theorem unwrap_two_level_counterexample:
  "vec_data_ptr (vec_update ex_host (ex_vec (ex_raw_pointer ''pointer'')))
     = HostValue (ex_raw_pointer ''pointer'')
   \<and> GetValueAsUnsigned ex_host
        (vec_data_ptr (vec_update ex_host (ex_vec (ex_raw_pointer ''pointer'')))) = 0x1000
   \<and> vec_data_ptr (vec_update ex_host (ex_vec (ex_non_null (ex_non_zero (ex_raw_pointer ''__0'')))))
     = HostValue (ex_non_zero (ex_raw_pointer ''__0''))
   \<and> \<not> TypeIsPointerType
         (vec_data_ptr (vec_update ex_host (ex_vec (ex_non_null (ex_non_zero (ex_raw_pointer ''__0''))))))
   \<and> GetValueAsUnsigned ex_host
        (vec_data_ptr (vec_update ex_host (ex_vec (ex_non_null (ex_non_zero (ex_raw_pointer ''__0''))))))
       = 0"
  by code_simp

text \<open>
  C7, amended. When the member \<^verbatim>\<open>pointer\<close> of the buffer's pointer field is a raw
  pointer, the data pointer is that member; when it is not, the data pointer is its first
  child. So a raw pointer and a one-level wrapper around a raw pointer of the same address
  give the same data address.
\<close>

theorem unwrap_one_level:
  "TypeIsPointerType (pointer_member h va) \<Longrightarrow>
   \<not> TypeIsPointerType (pointer_member h vb) \<Longrightarrow>
   GetValueAsUnsigned h (GetChildAtIndex h (pointer_member h vb) 0)
     = GetValueAsUnsigned h (pointer_member h va) \<Longrightarrow>
   unwrap_unique_or_non_null h (buffer_pointer_field h va) = pointer_member h va
   \<and> unwrap_unique_or_non_null h (buffer_pointer_field h vb) = GetChildAtIndex h (pointer_member h vb) 0
   \<and> vec_data_ptr (vec_update h va) = pointer_member h va
   \<and> vec_data_ptr (vec_update h vb) = GetChildAtIndex h (pointer_member h vb) 0
   \<and> GetValueAsUnsigned h (vec_data_ptr (vec_update h va))
       = GetValueAsUnsigned h (vec_data_ptr (vec_update h vb))"
proof -
  assume a: "TypeIsPointerType (pointer_member h va)"
    and b: "\<not> TypeIsPointerType (pointer_member h vb)"
    and e: "GetValueAsUnsigned h (GetChildAtIndex h (pointer_member h vb) 0)
              = GetValueAsUnsigned h (pointer_member h va)"
  from a have ua: "unwrap_unique_or_non_null h (buffer_pointer_field h va) = pointer_member h va"
    by (simp add: unwrap_unique_or_non_null_def Let_def pointer_member_def)
  from b have ub: "unwrap_unique_or_non_null h (buffer_pointer_field h vb)
                     = GetChildAtIndex h (pointer_member h vb) 0"
    by (simp add: unwrap_unique_or_non_null_def Let_def pointer_member_def)
  from a have da: "vec_data_ptr (vec_update h va) = pointer_member h va"
    by (simp add: vec_data_ptr_update)
  from b have db: "vec_data_ptr (vec_update h vb) = GetChildAtIndex h (pointer_member h vb) 0"
    by (simp add: vec_data_ptr_update)
  from e have "GetValueAsUnsigned h (vec_data_ptr (vec_update h va))
       = GetValueAsUnsigned h (vec_data_ptr (vec_update h vb))"
    by (simp add: da db)
  with ua ub da db show ?thesis by blast
qed

text \<open>
  C7, amended, on the layouts the source lists: \<^verbatim>\<open>pointer: *const T\<close>,
  \<^verbatim>\<open>pointer: NonNull<T>\<close> and \<^verbatim>\<open>pointer: NonZero<*const T>\<close>.
\<close>

theorem unwrap_one_level_witness:
  "TypeIsPointerType (pointer_member ex_host (ex_vec (ex_raw_pointer ''pointer'')))
   \<and> \<not> TypeIsPointerType (pointer_member ex_host (ex_vec (ex_non_null (ex_raw_pointer ''pointer''))))
   \<and> \<not> TypeIsPointerType (pointer_member ex_host (ex_vec (ex_non_zero (ex_raw_pointer ''__0''))))
   \<and> GetValueAsUnsigned ex_host (vec_data_ptr (vec_update ex_host (ex_vec (ex_raw_pointer ''pointer''))))
       = 0x1000
   \<and> GetValueAsUnsigned ex_host
        (vec_data_ptr (vec_update ex_host (ex_vec (ex_non_null (ex_raw_pointer ''pointer'')))))
       = 0x1000
   \<and> GetValueAsUnsigned ex_host
        (vec_data_ptr (vec_update ex_host (ex_vec (ex_non_zero (ex_raw_pointer ''__0'')))))
       = 0x1000"
proof -
  have a: "TypeIsPointerType (pointer_member ex_host (ex_vec (ex_raw_pointer ''pointer'')))"
    by code_simp
  have b: "\<not> TypeIsPointerType (pointer_member ex_host (ex_vec (ex_non_null (ex_raw_pointer ''pointer''))))"
    by code_simp
  have c: "\<not> TypeIsPointerType (pointer_member ex_host (ex_vec (ex_non_zero (ex_raw_pointer ''__0''))))"
    by code_simp
  have pa: "GetValueAsUnsigned ex_host (pointer_member ex_host (ex_vec (ex_raw_pointer ''pointer'')))
      = 0x1000"
    by code_simp
  have pb: "GetValueAsUnsigned ex_host
      (GetChildAtIndex ex_host (pointer_member ex_host (ex_vec (ex_non_null (ex_raw_pointer ''pointer'')))) 0)
      = 0x1000"
    by code_simp
  have pc: "GetValueAsUnsigned ex_host
      (GetChildAtIndex ex_host (pointer_member ex_host (ex_vec (ex_non_zero (ex_raw_pointer ''__0'')))) 0)
      = 0x1000"
    by code_simp
  from unwrap_one_level [OF a b] pa pb
  have 1: "GetValueAsUnsigned ex_host (vec_data_ptr (vec_update ex_host (ex_vec (ex_raw_pointer ''pointer''))))
       = 0x1000"
    "GetValueAsUnsigned ex_host
        (vec_data_ptr (vec_update ex_host (ex_vec (ex_non_null (ex_raw_pointer ''pointer'')))))
       = 0x1000"
    by simp_all
  from unwrap_one_level [OF a c] pa pc
  have 2: "GetValueAsUnsigned ex_host
        (vec_data_ptr (vec_update ex_host (ex_vec (ex_non_zero (ex_raw_pointer ''__0'')))))
       = 0x1000"
    by simp
  from a b c 1 2 show ?thesis by blast
qed

end
